theory Spec2Isabelle
  imports Main "HOL-Library.Word"
begin

unbundle bit_operations_syntax

section \<open>Machine types and constants of nca.c\<close>

type_synonym u8 = "8 word"
type_synonym u16 = "16 word"
type_synonym u32 = "32 word"
type_synonym u64 = "64 word"
type_synonym bytes = "u8 list"

text \<open>
  \<^verbatim>\<open>#define NCA_CRYPTO_BUFFER_SIZE 0x800000\<close> is the only constant nca.c defines itself.
\<close>

definition NCA_CRYPTO_BUFFER_SIZE :: u64 where
  "NCA_CRYPTO_BUFFER_SIZE = 0x800000"

text \<open>
  Modelled from the spec: nca.h, aes.h and nxdt_utils.h are not among the sources, so the
  constants they declare are taken from the specification's list of normative constants
  (XTS sector size 0x200, CTR block size 0x10, SHA-256 size 0x20, section-sector
  multiplier 0x200, at most 5 flat-SHA256 regions, 6 integrity levels, four section
  slots, a key area of 4 x 16 bytes). The archive header spans the first two XTS sectors
  and every section header one sector (section header i of a V3 archive is sector 2+i),
  which gives the header lengths.
\<close>

definition NCA_AES_XTS_SECTOR_SIZE :: u64 where
  "NCA_AES_XTS_SECTOR_SIZE = 0x200"

definition AES_BLOCK_SIZE :: u64 where
  "AES_BLOCK_SIZE = 0x10"

definition AES_128_KEY_SIZE :: nat where
  "AES_128_KEY_SIZE = 0x10"

definition SHA256_HASH_SIZE :: nat where
  "SHA256_HASH_SIZE = 0x20"

definition NCA_FS_HEADER_COUNT :: nat where
  "NCA_FS_HEADER_COUNT = 4"

definition sizeof_NcaHeader :: u64 where
  "sizeof_NcaHeader = 0x400"

definition sizeof_NcaFsHeader :: u64 where
  "sizeof_NcaFsHeader = 0x200"

definition NCA_FULL_HEADER_LENGTH :: u64 where
  "NCA_FULL_HEADER_LENGTH = 0xC00"

definition NCA_USED_KEY_AREA_SIZE :: nat where
  "NCA_USED_KEY_AREA_SIZE = 0x40"

definition NCA_HIERARCHICAL_SHA256_MAX_REGION_COUNT :: u32 where
  "NCA_HIERARCHICAL_SHA256_MAX_REGION_COUNT = 5"

definition NCA_IVFC_LEVEL_COUNT :: u32 where
  "NCA_IVFC_LEVEL_COUNT = 6"

text \<open>\<^verbatim>\<open>NCA_FS_SECTOR_OFFSET(x)\<close>: a 32-bit sector index widened to 64 bits, times 0x200.\<close>

definition NCA_FS_SECTOR_OFFSET :: "u32 \<Rightarrow> u64" where
  "NCA_FS_SECTOR_OFFSET x = ucast x * 0x200"

text \<open>
  \<^verbatim>\<open>ALIGN_DOWN\<close> and \<^verbatim>\<open>ALIGN_UP\<close>, as the specification words them: the floor and
  the ceiling on the unit's grid, in 64-bit arithmetic.
\<close>

definition ALIGN_DOWN :: "u64 \<Rightarrow> u64 \<Rightarrow> u64" where
  "ALIGN_DOWN x y = (x div y) * y"

definition ALIGN_UP :: "u64 \<Rightarrow> u64 \<Rightarrow> u64" where
  "ALIGN_UP x y = ((x + (y - 1)) div y) * y"

text \<open>
  Modelled from the spec: the enumerations of nca.h, in the order the specification lists
  their members. nca.c compares encryption kinds and section types with \<open><\<close> and \<open>>\<close>,
  so they stay numbers.
\<close>

definition NcaEncryptionType_Auto :: u8 where "NcaEncryptionType_Auto = 0"
definition NcaEncryptionType_None :: u8 where "NcaEncryptionType_None = 1"
definition NcaEncryptionType_AesXts :: u8 where "NcaEncryptionType_AesXts = 2"
definition NcaEncryptionType_AesCtr :: u8 where "NcaEncryptionType_AesCtr = 3"
definition NcaEncryptionType_AesCtrEx :: u8 where "NcaEncryptionType_AesCtrEx = 4"

definition NcaFsSectionType_PartitionFs :: u8 where "NcaFsSectionType_PartitionFs = 0"
definition NcaFsSectionType_RomFs :: u8 where "NcaFsSectionType_RomFs = 1"
definition NcaFsSectionType_PatchRomFs :: u8 where "NcaFsSectionType_PatchRomFs = 2"
definition NcaFsSectionType_Nca0RomFs :: u8 where "NcaFsSectionType_Nca0RomFs = 3"
definition NcaFsSectionType_Invalid :: u8 where "NcaFsSectionType_Invalid = 4"

datatype NcaVersion = NcaVersion_Nca0 | NcaVersion_Nca2 | NcaVersion_Nca3

datatype NcaFsType = NcaFsType_RomFs | NcaFsType_PartitionFs | NcaFsType_Other

datatype NcaHashType =
  NcaHashType_Auto | NcaHashType_None | NcaHashType_HierarchicalSha256
  | NcaHashType_HierarchicalIntegrity | NcaHashType_Other

datatype NcaDistributionType = NcaDistributionType_Download | NcaDistributionType_GameCard

datatype NcmStorageId =
  NcmStorageId_None | NcmStorageId_Host | NcmStorageId_GameCard
  | NcmStorageId_BuiltInSystem | NcmStorageId_BuiltInUser | NcmStorageId_SdCard
  | NcmStorageId_Any

section \<open>Structures\<close>

text \<open>
  The header structures live in memory as byte images (they are what the XTS primitive and
  SHA-256 read and write); nca.c looks at them through the field layout of nca.h. The
  layout is not among the sources, so the context keeps the images and the fields are read
  through a view that is a parameter of the model (see \<open>nca_env\<close> below). The records
  here are what a view shows: the fields nca.c touches.
\<close>

record NcaFsInfo =
  start_sector :: u32
  end_sector :: u32
  fs_info_rest :: bytes

record NcaHeader =
  main_signature :: bytes
  magic :: u32
  distribution_type :: NcaDistributionType
  key_generation_old :: u8
  kaek_index :: u8
  hdr_content_size :: u64
  hdr_key_generation :: u8
  main_signature_key_generation :: u8
  rights_id :: bytes
  fs_info :: "NcaFsInfo list"
  fs_header_hash :: "bytes list"
  encrypted_key_area :: bytes

record NcaRegion =
  region_offset :: u64
  region_size :: u64

record NcaHierarchicalSha256Data =
  sha256_master_hash :: bytes
  hash_block_size :: u32
  hash_region_count :: u32
  hash_region :: "NcaRegion list"

record NcaLevelInformation =
  level_offset :: u64
  level_size :: u64
  block_order :: u32

record NcaIntegrityMetaInfo =
  max_level_count :: u32
  level_information :: "NcaLevelInformation list"
  integrity_master_hash :: bytes

record NcaSparseInfo =
  bucket_offset :: u64
  bucket_size :: u64
  bucket_magic :: u32
  bucket_version :: u32
  bucket_entry_count :: u32
  physical_offset :: u64
  generation :: u16

record NcaFsHeader =
  fs_type :: NcaFsType
  hash_type :: NcaHashType
  hdr_encryption_type :: u8
  hierarchical_sha256_data :: NcaHierarchicalSha256Data
  integrity_meta_info :: NcaIntegrityMetaInfo
  aes_ctr_upper_iv :: bytes
  sparse_info :: NcaSparseInfo

text \<open>
  The AES contexts of aes.h hold an expanded key; the model keeps the arguments they were
  created from. A context that was never created (the zeroed memory
  \<^verbatim>\<open>memset(out, 0, sizeof(NcaContext))\<close> leaves) has no key.
\<close>

record Aes128CtrContext =
  ctr_key :: "bytes option"
  ctr_iv :: bytes

record Aes128XtsContext =
  xts_key1 :: bytes
  xts_key2 :: bytes
  xts_is_encryptor :: bool

record NcaFsSectionContext =
  enabled :: bool
  nca_ctx :: bool
  fs_header :: bytes
  fs_encrypted_header :: bytes
  fs_header_written :: bool
  section_num :: u8
  section_offset :: u64
  section_size :: u64
  section_type :: u8
  encryption_type :: u8
  ctr :: bytes
  ctr_ctx :: Aes128CtrContext
  xts_decrypt_ctx :: "Aes128XtsContext option"
  xts_encrypt_ctx :: "Aes128XtsContext option"
  has_sparse_layer :: bool
  sparse_table_offset :: u64
  sparse_table_size :: u64
  sparse_ctr :: bytes
  sparse_ctr_ctx :: Aes128CtrContext

record NcaContext =
  storage_id :: NcmStorageId
  ncm_storage :: bool
  gamecard_offset :: u64
  content_id :: bytes
  content_id_str :: string
  hash :: bytes
  hash_str :: string
  format_version :: NcaVersion
  content_type :: u8
  id_offset :: u8
  content_size :: u64
  key_generation :: u8
  rights_id_available :: bool
  titlekey_retrieved :: bool
  titlekey :: bytes
  valid_main_signature :: bool
  header_hash :: bytes
  encrypted_header :: bytes
  header :: bytes
  header_written :: bool
  decrypted_key_area :: bytes
  fs_ctx :: "NcaFsSectionContext list"

record NcaHashDataPatch =
  written :: bool
  patch_offset :: u64
  patch_size :: u64
  patch_data :: "bytes option"

record NcaHierarchicalSha256Patch =
  sha256_patch_written :: bool
  sha256_patch_content_id :: bytes
  hash_region_patch_count :: u32
  hash_region_patch :: "NcaHashDataPatch list"

record NcaHierarchicalIntegrityPatch =
  integrity_patch_written :: bool
  integrity_patch_content_id :: bytes
  hash_level_patch :: "NcaHashDataPatch list"

text \<open>
  The state \<^verbatim>\<open>memset(out, 0, sizeof(NcaContext))\<close> leaves: every integer 0, every flag
  false, every pointer NULL, every byte array zero, every string empty.
\<close>

definition Aes128CtrContext_zero :: Aes128CtrContext where
  "Aes128CtrContext_zero = \<lparr>ctr_key = None, ctr_iv = replicate 16 0\<rparr>"

definition NcaFsSectionContext_zero :: NcaFsSectionContext where
  "NcaFsSectionContext_zero =
     \<lparr>enabled = False, nca_ctx = False, fs_header = replicate 0x200 0,
      fs_encrypted_header = replicate 0x200 0, fs_header_written = False, section_num = 0,
      section_offset = 0, section_size = 0, section_type = 0, encryption_type = 0,
      ctr = replicate 16 0, ctr_ctx = Aes128CtrContext_zero, xts_decrypt_ctx = None,
      xts_encrypt_ctx = None, has_sparse_layer = False, sparse_table_offset = 0,
      sparse_table_size = 0, sparse_ctr = replicate 16 0,
      sparse_ctr_ctx = Aes128CtrContext_zero\<rparr>"

definition NcaContext_zero :: NcaContext where
  "NcaContext_zero =
     \<lparr>storage_id = NcmStorageId_None, ncm_storage = False, gamecard_offset = 0,
      content_id = replicate 16 0, content_id_str = [], hash = replicate 32 0, hash_str = [],
      format_version = NcaVersion_Nca0, content_type = 0, id_offset = 0, content_size = 0,
      key_generation = 0, rights_id_available = False, titlekey_retrieved = False,
      titlekey = replicate 16 0, valid_main_signature = False, header_hash = replicate 32 0,
      encrypted_header = replicate 0x400 0, header = replicate 0x400 0,
      header_written = False, decrypted_key_area = replicate 0x40 0,
      fs_ctx = replicate 4 NcaFsSectionContext_zero\<rparr>"

section \<open>Memory helpers\<close>

text \<open>
  \<^verbatim>\<open>memcpy(dst + d, src + s, n)\<close> on byte lists. The C call requires both ranges to lie
  inside their objects; the theorems below state that requirement where they need it.
\<close>

definition memcpy_at :: "bytes \<Rightarrow> nat \<Rightarrow> bytes \<Rightarrow> nat \<Rightarrow> nat \<Rightarrow> bytes" where
  "memcpy_at dst d src s n = take d dst @ take n (drop s src) @ drop (d + n) dst"

section \<open>Patch-apply buffer merge\<close>

text \<open>
  \<^verbatim>\<open>ncaWritePatchToMemoryBuffer\<close> (nca.c, lines 1226-1247). The context and the patch
  data are pointers the function tests against NULL; the result is the returned flag and
  the buffer after the call.
\<close>

definition ncaWritePatchToMemoryBuffer ::
  "NcaContext option \<Rightarrow> bytes option \<Rightarrow> u64 \<Rightarrow> u64 \<Rightarrow> bytes \<Rightarrow> u64 \<Rightarrow> u64 \<Rightarrow> bool \<times> bytes" where
  "ncaWritePatchToMemoryBuffer ctx patch p_size p_offset buf buf_size buf_offset =
     (case ctx of
        None \<Rightarrow> (False, buf)
      | Some c \<Rightarrow>
         (case patch of
            None \<Rightarrow> (False, buf)
          | Some p \<Rightarrow>
              if p_size = 0 \<or> p_offset + p_size > content_size c
                 \<or> buf_offset + buf_size \<le> p_offset \<or> p_offset + p_size \<le> buf_offset
              then (False, buf)
              else
                let patch_block_offset = (if p_offset < buf_offset then buf_offset - p_offset else 0);
                    patch_remaining_size = p_size - patch_block_offset;
                    buf_block_offset = (if buf_offset < p_offset then p_offset - buf_offset else 0);
                    buf_remaining_size = buf_size - buf_block_offset;
                    buf_block_size = (if buf_remaining_size < patch_remaining_size
                                      then buf_remaining_size else patch_remaining_size)
                in (patch_block_offset + buf_block_size = p_size,
                    memcpy_at buf (unat buf_block_offset) p (unat patch_block_offset)
                      (unat buf_block_size))))"




subsection \<open>Vocabulary for the statements about patches\<close>

text \<open>
  A patch entry applies to a buffer range when it is not empty, lies inside the declared
  content size and overlaps the range; this is the guard of the merge read in natural
  numbers.
\<close>

definition patch_applies :: "NcaContext \<Rightarrow> u64 \<Rightarrow> u64 \<Rightarrow> u64 \<Rightarrow> u64 \<Rightarrow> bool" where
  "patch_applies c p_size p_offset buf_size buf_offset =
     (unat p_size \<noteq> 0 \<and> unat p_offset + unat p_size \<le> unat (content_size c)
      \<and> unat p_offset < unat buf_offset + unat buf_size
      \<and> unat buf_offset < unat p_offset + unat p_size)"

text \<open>
  A well-formed entry: its range does not wrap around 64 bits and its data, when present,
  has the declared size. Two entries are apart when their archive ranges are disjoint.
\<close>

definition patch_entry_wf :: "NcaHashDataPatch \<Rightarrow> bool" where
  "patch_entry_wf e =
     (unat (patch_offset e) + unat (patch_size e) < 2 ^ 64
      \<and> (case patch_data e of None \<Rightarrow> True | Some d \<Rightarrow> length d = unat (patch_size e)))"



text \<open>
  The buffer one entry leaves behind, the flag it gets (the merge's flag does not depend on
  the buffer contents), and the buffer positions an entry writes.
\<close>

definition entry_write :: "NcaContext \<Rightarrow> u64 \<Rightarrow> u64 \<Rightarrow> NcaHashDataPatch \<Rightarrow> bytes \<Rightarrow> bytes" where
  "entry_write c buf_size buf_offset e buf =
     snd (ncaWritePatchToMemoryBuffer (Some c) (patch_data e) (patch_size e) (patch_offset e)
            buf buf_size buf_offset)"



subsection \<open>Example patch sets\<close>







section \<open>External collaborators\<close>

text \<open>
  What nca.c calls and the sources do not define: the key provider (keys.h), the AES, RSA and
  SHA-256 primitives (aes.h, rsa.h), the block readers, the ticket lookup, the game-card
  file table, the hex-string helper, and the field layout of the two header structures
  (nca.h). They are parameters of the model: every function below takes them as one record,
  and every theorem holds for all of them unless it states a law it needs.

  A primitive that writes through an output pointer returns what it wrote. A \<^verbatim>\<open>NULL\<close>
  result is \<open>None\<close>. \<open>NcaHeader_view\<close> reads the fields of a header image,
  \<open>NcaHeader_store\<close> writes fields back into an image; \<open>NcaHeader_signature_area\<close> is
  the \<^verbatim>\<open>NCA_SIGNATURE_AREA_SIZE\<close> bytes from \<^verbatim>\<open>&header.magic\<close> on.
  \<open>g_ncaCryptoBuffer\<close> says whether the global staging buffer has been allocated, and
  \<open>alloc_ok\<close> whether \<^verbatim>\<open>malloc\<close> or \<^verbatim>\<open>calloc\<close> of a size succeeds.
\<close>

record Ticket =
  dec_titlekey :: bytes

record NcmContentInfo =
  info_content_id :: bytes
  info_size :: bytes
  info_content_type :: u8
  info_id_offset :: u8

record nca_env =
  keysGetNcaHeaderKey :: "bytes option"
  keysDecryptNcaKeyAreaEntry :: "u8 \<Rightarrow> u8 \<Rightarrow> bytes \<Rightarrow> bytes option"
  keysGetNcaKeyAreaEncryptionKey :: "u8 \<Rightarrow> u8 \<Rightarrow> bytes option"
  keysGetNcaMainSignatureModulus :: "u8 \<Rightarrow> bytes option"
  aes128XtsNintendoCrypt ::
    "Aes128XtsContext option \<Rightarrow> bytes \<Rightarrow> u64 \<Rightarrow> u64 \<Rightarrow> u64 \<Rightarrow> bool \<Rightarrow> u64 \<times> bytes"
  aes128EncryptBlock :: "bytes \<Rightarrow> bytes \<Rightarrow> bytes"
  aes128CtrCrypt :: "Aes128CtrContext \<Rightarrow> bytes \<Rightarrow> u64 \<Rightarrow> bytes"
  aes128CtrInitializePartialCtr :: "bytes \<Rightarrow> u64 \<Rightarrow> bytes"
  aes128CtrUpdatePartialCtr :: "bytes \<Rightarrow> u64 \<Rightarrow> bytes"
  rsa2048VerifySha256BasedPssSignature :: "bytes \<Rightarrow> bytes \<Rightarrow> bytes \<Rightarrow> bytes \<Rightarrow> bool"
  sha256CalculateHash :: "bytes \<Rightarrow> bytes"
  ncmContentStorageReadContentIdFile :: "bytes \<Rightarrow> u64 \<Rightarrow> u64 \<Rightarrow> bytes option"
  gamecardReadStorage :: "u64 \<Rightarrow> u64 \<Rightarrow> bytes option"
  gamecardGetHashFileSystemEntryInfoByName :: "u8 \<Rightarrow> string \<Rightarrow> u64 option"
  GameCardHashFileSystemPartitionType_Count :: u8
  tikRetrieveTicketByRightsId :: "Ticket \<Rightarrow> bytes \<Rightarrow> bool \<Rightarrow> Ticket option"
  titleConvertNcmContentSizeToU64 :: "bytes \<Rightarrow> u64"
  utilsGenerateHexStringFromData :: "bytes \<Rightarrow> string"
  NcaHeader_view :: "bytes \<Rightarrow> NcaHeader"
  NcaHeader_store :: "NcaHeader \<Rightarrow> bytes \<Rightarrow> bytes"
  NcaHeader_signature_area :: "bytes \<Rightarrow> bytes"
  NcaFsHeader_view :: "bytes \<Rightarrow> NcaFsHeader"
  NcaFsHeader_store :: "NcaFsHeader \<Rightarrow> bytes \<Rightarrow> bytes"
  g_ncaCryptoBuffer :: bool
  alloc_ok :: "u64 \<Rightarrow> bool"

section \<open>Header codec\<close>

text \<open>The two constant tables of nca.c (lines 38-44).\<close>

definition g_nca0KeyAreaHash :: bytes where
  "g_nca0KeyAreaHash =
     [0x9A, 0xBB, 0xD2, 0x11, 0x86, 0x00, 0x21, 0x9D, 0x7A, 0xDC, 0x5B, 0x43, 0x95, 0xF8, 0x4E, 0xFD,
      0xFF, 0x6B, 0x25, 0xEF, 0x9F, 0x96, 0x85, 0x28, 0x18, 0x9E, 0x76, 0xB0, 0x92, 0xF0, 0x6A, 0xCB]"

definition g_ncaHeaderMainSignaturePublicExponent :: bytes where
  "g_ncaHeaderMainSignaturePublicExponent = [0x01, 0x00, 0x01]"

text \<open>
  Modelled from the spec: the magic numbers of nca.h, the ASCII strings "NCA3", "NCA2" and
  "NCA0" read as big-endian 32-bit integers.
\<close>

definition NCA_NCA3_MAGIC :: u32 where "NCA_NCA3_MAGIC = 0x4E434133"
definition NCA_NCA2_MAGIC :: u32 where "NCA_NCA2_MAGIC = 0x4E434132"
definition NCA_NCA0_MAGIC :: u32 where "NCA_NCA0_MAGIC = 0x4E434130"

text \<open>\<^verbatim>\<open>__builtin_bswap32\<close>.\<close>

definition bswap32 :: "u32 \<Rightarrow> u32" where
  "bswap32 x =
     push_bit 24 (x AND 0xFF) OR push_bit 8 (x AND 0xFF00)
     OR (drop_bit 8 x AND 0xFF00) OR (drop_bit 24 x AND 0xFF)"

text \<open>\<^verbatim>\<open>memcmp(p, zeros, n) == 0\<close> for an n-byte object.\<close>

definition all_zero :: "bytes \<Rightarrow> bool" where
  "all_zero bs = list_all (\<lambda>b. b = 0) bs"

text \<open>\<^verbatim>\<open>ncaIsFsInfoEntryValid\<close> (lines 588-593): some byte of the entry is not zero.\<close>

definition ncaIsFsInfoEntryValid :: "NcaFsInfo \<Rightarrow> bool" where
  "ncaIsFsInfoEntryValid fi =
     (\<not> (start_sector fi = 0 \<and> end_sector fi = 0 \<and> all_zero (fs_info_rest fi)))"

text \<open>
  \<^verbatim>\<open>ncaReadContentFile\<close> (lines 310-337): the bytes read, or \<open>None\<close> when the
  parameters are refused or the reader fails.
\<close>

definition ncaReadContentFile :: "nca_env \<Rightarrow> NcaContext \<Rightarrow> u64 \<Rightarrow> u64 \<Rightarrow> bytes option" where
  "ncaReadContentFile env ctx read_size offset =
     (if content_id_str ctx = []
         \<or> (storage_id ctx \<noteq> NcmStorageId_GameCard \<and> \<not> ncm_storage ctx)
         \<or> (storage_id ctx = NcmStorageId_GameCard \<and> gamecard_offset ctx = 0)
         \<or> read_size = 0 \<or> offset + read_size > content_size ctx
      then None
      else if storage_id ctx \<noteq> NcmStorageId_GameCard
      then ncmContentStorageReadContentIdFile env (content_id ctx) read_size offset
      else gamecardReadStorage env read_size (gamecard_offset ctx + offset))"

text \<open>\<^verbatim>\<open>ncaGetKeyGenerationValue\<close> and \<^verbatim>\<open>ncaCheckRightsIdAvailability\<close> (lines 803-819).\<close>

definition ncaGetKeyGenerationValue :: "nca_env \<Rightarrow> NcaContext \<Rightarrow> u8" where
  "ncaGetKeyGenerationValue env ctx =
     (let h = NcaHeader_view env (header ctx)
      in if hdr_key_generation h > key_generation_old h then hdr_key_generation h
         else key_generation_old h)"

definition ncaCheckRightsIdAvailability :: "nca_env \<Rightarrow> NcaContext \<Rightarrow> bool" where
  "ncaCheckRightsIdAvailability env ctx =
     (\<not> all_zero (take 0x10 (rights_id (NcaHeader_view env (header ctx)))))"

text \<open>\<^verbatim>\<open>ncaIsVersion0KeyAreaEncrypted\<close> (lines 794-801).\<close>

definition ncaIsVersion0KeyAreaEncrypted :: "nca_env \<Rightarrow> NcaContext \<Rightarrow> bool" where
  "ncaIsVersion0KeyAreaEncrypted env ctx =
     (if format_version ctx \<noteq> NcaVersion_Nca0 then False
      else take SHA256_HASH_SIZE
             (sha256CalculateHash env
                (take NCA_USED_KEY_AREA_SIZE (encrypted_key_area (NcaHeader_view env (header ctx)))))
           \<noteq> g_nca0KeyAreaHash)"

text \<open>
  The key slots of a key area: slot i is the 16 bytes at offset \<open>i * AES_128_KEY_SIZE\<close>.
  Slot 0 is \<^verbatim>\<open>aes_xts_1\<close>, slot 1 \<^verbatim>\<open>aes_xts_2\<close>, slot 2 \<^verbatim>\<open>aes_ctr\<close> and slot 3
  \<^verbatim>\<open>aes_ctr_ex\<close>.
\<close>

definition key_slot :: "bytes \<Rightarrow> nat \<Rightarrow> bytes" where
  "key_slot area i = take AES_128_KEY_SIZE (drop (i * AES_128_KEY_SIZE) area)"

definition aes_xts_1 :: "bytes \<Rightarrow> bytes" where "aes_xts_1 area = key_slot area 0"
definition aes_xts_2 :: "bytes \<Rightarrow> bytes" where "aes_xts_2 area = key_slot area 1"
definition aes_ctr :: "bytes \<Rightarrow> bytes" where "aes_ctr area = key_slot area 2"
definition aes_ctr_ex :: "bytes \<Rightarrow> bytes" where "aes_ctr_ex area = key_slot area 3"

text \<open>
  The loop of \<^verbatim>\<open>ncaDecryptKeyArea\<close> over the key slots (lines 709-723): a null key is
  skipped, a failed decryption ends the loop with false.
\<close>

fun decrypt_key_area_entries ::
  "nca_env \<Rightarrow> u8 \<Rightarrow> u8 \<Rightarrow> bytes \<Rightarrow> nat list \<Rightarrow> bytes \<Rightarrow> bool \<times> bytes" where
  "decrypt_key_area_entries env kaek gen src [] dst = (True, dst)"
| "decrypt_key_area_entries env kaek gen src (i # is) dst =
     (let src_key = key_slot src i
      in if src_key = replicate AES_128_KEY_SIZE 0
         then decrypt_key_area_entries env kaek gen src is dst
         else (case keysDecryptNcaKeyAreaEntry env kaek gen src_key of
                 None \<Rightarrow> (False, dst)
               | Some dst_key \<Rightarrow>
                   decrypt_key_area_entries env kaek gen src is
                     (memcpy_at dst (i * AES_128_KEY_SIZE) dst_key 0 AES_128_KEY_SIZE)))"

text \<open>\<^verbatim>\<open>ncaDecryptKeyArea\<close> (lines 687-726).\<close>

definition ncaDecryptKeyArea :: "nca_env \<Rightarrow> NcaContext \<Rightarrow> bool \<times> NcaContext" where
  "ncaDecryptKeyArea env ctx =
     (let h = NcaHeader_view env (header ctx);
          key_count = (if format_version ctx = NcaVersion_Nca0 then 2 else 4 :: nat)
      in if ncaIsVersion0KeyAreaEncrypted env ctx
         then (True, ctx\<lparr>decrypted_key_area :=
                  memcpy_at (decrypted_key_area ctx) 0 (encrypted_key_area h) 0 NCA_USED_KEY_AREA_SIZE\<rparr>)
         else
           (case decrypt_key_area_entries env (kaek_index h) (key_generation ctx)
                   (encrypted_key_area h) [0..<key_count]
                   (memcpy_at (decrypted_key_area ctx) 0 (replicate NCA_USED_KEY_AREA_SIZE 0) 0
                      NCA_USED_KEY_AREA_SIZE) of
              (ok, area) \<Rightarrow> (ok, ctx\<lparr>decrypted_key_area := area\<rparr>)))"

text \<open>The loop of \<^verbatim>\<open>ncaEncryptKeyArea\<close> (lines 762-772).\<close>

fun encrypt_key_area_entries :: "nca_env \<Rightarrow> bytes \<Rightarrow> bytes \<Rightarrow> nat list \<Rightarrow> bytes \<Rightarrow> bytes" where
  "encrypt_key_area_entries env kaek src [] dst = dst"
| "encrypt_key_area_entries env kaek src (i # is) dst =
     (let src_key = key_slot src i
      in if src_key = replicate AES_128_KEY_SIZE 0
         then encrypt_key_area_entries env kaek src is dst
         else encrypt_key_area_entries env kaek src is
                (memcpy_at dst (i * AES_128_KEY_SIZE) (aes128EncryptBlock env kaek src_key) 0
                   AES_128_KEY_SIZE))"

text \<open>\<^verbatim>\<open>ncaEncryptKeyArea\<close> (lines 728-775); the key area it writes is a field of the header.\<close>

definition ncaEncryptKeyArea :: "nca_env \<Rightarrow> NcaContext \<Rightarrow> bool \<times> NcaContext" where
  "ncaEncryptKeyArea env ctx =
     (let h = NcaHeader_view env (header ctx);
          key_count = (if format_version ctx = NcaVersion_Nca0 then 2 else 4 :: nat)
      in if ncaIsVersion0KeyAreaEncrypted env ctx
         then (True, ctx\<lparr>header := NcaHeader_store env
                  (h\<lparr>encrypted_key_area :=
                       memcpy_at (encrypted_key_area h) 0 (decrypted_key_area ctx) 0
                         NCA_USED_KEY_AREA_SIZE\<rparr>) (header ctx)\<rparr>)
         else
           (case keysGetNcaKeyAreaEncryptionKey env (kaek_index h) (key_generation ctx) of
              None \<Rightarrow> (False, ctx)
            | Some kaek \<Rightarrow>
                (True, ctx\<lparr>header := NcaHeader_store env
                   (h\<lparr>encrypted_key_area :=
                        encrypt_key_area_entries env kaek (decrypted_key_area ctx) [0..<key_count]
                          (memcpy_at (encrypted_key_area h) 0 (replicate NCA_USED_KEY_AREA_SIZE 0) 0
                             NCA_USED_KEY_AREA_SIZE)\<rparr>) (header ctx)\<rparr>)))"

text \<open>\<^verbatim>\<open>ncaVerifyMainSignature\<close> (lines 777-792).\<close>

definition ncaVerifyMainSignature :: "nca_env \<Rightarrow> NcaContext \<Rightarrow> bool" where
  "ncaVerifyMainSignature env ctx =
     (let h = NcaHeader_view env (header ctx)
      in case keysGetNcaMainSignatureModulus env (main_signature_key_generation h) of
           None \<Rightarrow> False
         | Some modulus \<Rightarrow>
             rsa2048VerifySha256BasedPssSignature env (NcaHeader_signature_area env (header ctx))
               (main_signature h) modulus g_ncaHeaderMainSignaturePublicExponent)"

text \<open>
  The XTS sector of section header i (lines 674 and 507, the same expression in both):
  \<^verbatim>\<open>format_version == Nca3 ? (2U + i) : (format_version == Nca2 ? 0 : (start_sector - 2))\<close>,
  computed in 32 bits and widened to the 64-bit \<^verbatim>\<open>sector\<close>.
\<close>

definition fs_header_sector :: "NcaVersion \<Rightarrow> nat \<Rightarrow> u32 \<Rightarrow> u64" where
  "fs_header_sector v i start =
     ucast (if v = NcaVersion_Nca3 then 2 + of_nat i
            else if v = NcaVersion_Nca2 then 0 else start - 2 :: u32)"

text \<open>Where section header i is stored (lines 662 and 542).\<close>

definition fs_header_offset :: "NcaVersion \<Rightarrow> nat \<Rightarrow> u32 \<Rightarrow> u64" where
  "fs_header_offset v i start =
     (if v \<noteq> NcaVersion_Nca0 then sizeof_NcaHeader + of_nat i * sizeof_NcaFsHeader
      else NCA_FS_SECTOR_OFFSET start)"

text \<open>
  \<^verbatim>\<open>aes128XtsContextCreate(ctx, key1, key2, is_encryptor)\<close>, and the two halves of the
  header key.
\<close>

definition aes128XtsContextCreate :: "bytes \<Rightarrow> bytes \<Rightarrow> bool \<Rightarrow> Aes128XtsContext option" where
  "aes128XtsContextCreate k1 k2 is_encryptor =
     Some \<lparr>xts_key1 = k1, xts_key2 = k2, xts_is_encryptor = is_encryptor\<rparr>"

definition header_key_ctx :: "bytes \<Rightarrow> bool \<Rightarrow> Aes128XtsContext option" where
  "header_key_ctx header_key is_encryptor =
     aes128XtsContextCreate (take AES_128_KEY_SIZE header_key)
       (take AES_128_KEY_SIZE (drop AES_128_KEY_SIZE header_key)) is_encryptor"

definition key_area_xts_ctx :: "NcaContext \<Rightarrow> bool \<Rightarrow> Aes128XtsContext option" where
  "key_area_xts_ctx ctx is_encryptor =
     aes128XtsContextCreate (aes_xts_1 (decrypted_key_area ctx)) (aes_xts_2 (decrypted_key_area ctx))
       is_encryptor"

text \<open>
  The loop of \<^verbatim>\<open>ncaReadDecryptedHeader\<close> over the section slots (lines 653-682). The
  second context is \<open>None\<close> unless the archive is V0, as in the source, where it stays
  zeroed.
\<close>

fun read_fs_headers ::
  "nca_env \<Rightarrow> Aes128XtsContext option \<Rightarrow> Aes128XtsContext option \<Rightarrow> nat list \<Rightarrow> NcaContext
   \<Rightarrow> bool \<times> NcaContext" where
  "read_fs_headers env hdr_aes_ctx nca0_fs_header_ctx [] ctx = (True, ctx)"
| "read_fs_headers env hdr_aes_ctx nca0_fs_header_ctx (i # is) ctx =
     (let fi = fs_info (NcaHeader_view env (header ctx)) ! i
      in if \<not> ncaIsFsInfoEntryValid fi
         then read_fs_headers env hdr_aes_ctx nca0_fs_header_ctx is ctx
         else
           (case ncaReadContentFile env ctx sizeof_NcaFsHeader
                   (fs_header_offset (format_version ctx) i (start_sector fi)) of
              None \<Rightarrow> (False, ctx)
            | Some enc \<Rightarrow>
                let aes_xts_ctx = (if format_version ctx \<noteq> NcaVersion_Nca0 then hdr_aes_ctx
                                   else nca0_fs_header_ctx);
                    sector = fs_header_sector (format_version ctx) i (start_sector fi);
                    res = aes128XtsNintendoCrypt env aes_xts_ctx enc sizeof_NcaFsHeader sector
                            NCA_AES_XTS_SECTOR_SIZE False;
                    ctx' = ctx\<lparr>fs_ctx := (fs_ctx ctx)
                             [i := (fs_ctx ctx ! i)\<lparr>fs_encrypted_header := enc,
                                                     fs_header := snd res\<rparr>]\<rparr>
                in if fst res \<noteq> sizeof_NcaFsHeader then (False, ctx')
                   else read_fs_headers env hdr_aes_ctx nca0_fs_header_ctx is ctx'))"

text \<open>\<^verbatim>\<open>ncaReadDecryptedHeader\<close> (lines 595-685).\<close>

definition ncaReadDecryptedHeader :: "nca_env \<Rightarrow> NcaContext \<Rightarrow> bool \<times> NcaContext" where
  "ncaReadDecryptedHeader env ctx =
     (if content_id_str ctx = [] \<or> content_size ctx < NCA_FULL_HEADER_LENGTH then (False, ctx)
      else
        (case keysGetNcaHeaderKey env of
           None \<Rightarrow> (False, ctx)
         | Some header_key \<Rightarrow>
             (case ncaReadContentFile env ctx sizeof_NcaHeader 0 of
                None \<Rightarrow> (False, ctx)
              | Some enc \<Rightarrow>
                  let hdr_aes_ctx = header_key_ctx header_key False;
                      res = aes128XtsNintendoCrypt env hdr_aes_ctx enc sizeof_NcaHeader 0
                              NCA_AES_XTS_SECTOR_SIZE False;
                      ctx1 = ctx\<lparr>encrypted_header := enc, header := snd res\<rparr>;
                      h = NcaHeader_view env (header ctx1);
                      m = bswap32 (magic h)
                  in if fst res \<noteq> sizeof_NcaHeader
                        \<or> (m \<noteq> NCA_NCA3_MAGIC \<and> m \<noteq> NCA_NCA2_MAGIC \<and> m \<noteq> NCA_NCA0_MAGIC)
                        \<or> hdr_content_size h \<noteq> content_size ctx1
                     then (False, ctx1)
                     else
                       let ctx2 = ctx1\<lparr>format_version :=
                                     (if m = NCA_NCA3_MAGIC then NcaVersion_Nca3
                                      else if m = NCA_NCA2_MAGIC then NcaVersion_Nca2
                                      else NcaVersion_Nca0)\<rparr>;
                           ctx3 = ctx2\<lparr>key_generation := ncaGetKeyGenerationValue env ctx2\<rparr>;
                           ctx4 = ctx3\<lparr>rights_id_available := ncaCheckRightsIdAvailability env ctx3\<rparr>;
                           ctx5 = ctx4\<lparr>header_hash :=
                                     sha256CalculateHash env (take (unat sizeof_NcaHeader) (header ctx4))\<rparr>;
                           ctx6 = ctx5\<lparr>valid_main_signature := ncaVerifyMainSignature env ctx5\<rparr>;
                           ka = (if \<not> rights_id_available ctx6 then ncaDecryptKeyArea env ctx6
                                 else (True, ctx6))
                       in if \<not> fst ka then (False, snd ka)
                          else
                            read_fs_headers env hdr_aes_ctx
                              (if format_version (snd ka) = NcaVersion_Nca0
                               then key_area_xts_ctx (snd ka) False else None)
                              [0..<NCA_FS_HEADER_COUNT] (snd ka))))"


text \<open>The loop of \<^verbatim>\<open>ncaEncryptHeader\<close> over the section slots (lines 494-515).\<close>

fun encrypt_fs_headers ::
  "nca_env \<Rightarrow> Aes128XtsContext option \<Rightarrow> Aes128XtsContext option \<Rightarrow> nat list \<Rightarrow> NcaContext
   \<Rightarrow> bool \<times> NcaContext" where
  "encrypt_fs_headers env hdr_aes_ctx nca0_fs_header_ctx [] ctx = (True, ctx)"
| "encrypt_fs_headers env hdr_aes_ctx nca0_fs_header_ctx (i # is) ctx =
     (let fi = fs_info (NcaHeader_view env (header ctx)) ! i
      in if \<not> ncaIsFsInfoEntryValid fi
         then encrypt_fs_headers env hdr_aes_ctx nca0_fs_header_ctx is ctx
         else
           let aes_xts_ctx = (if format_version ctx \<noteq> NcaVersion_Nca0 then hdr_aes_ctx
                              else nca0_fs_header_ctx);
               sector = fs_header_sector (format_version ctx) i (start_sector fi);
               res = aes128XtsNintendoCrypt env aes_xts_ctx (fs_header (fs_ctx ctx ! i))
                       sizeof_NcaFsHeader sector NCA_AES_XTS_SECTOR_SIZE True;
               ctx' = ctx\<lparr>fs_ctx := (fs_ctx ctx)
                        [i := (fs_ctx ctx ! i)\<lparr>fs_encrypted_header := snd res\<rparr>]\<rparr>
           in if fst res \<noteq> sizeof_NcaFsHeader then (False, ctx')
              else encrypt_fs_headers env hdr_aes_ctx nca0_fs_header_ctx is ctx')"


section \<open>Context initialization\<close>

text \<open>
  Modelled from the spec: the remaining enumerators and constants of nca.h that
  \<^verbatim>\<open>ncaInitializeContext\<close> compares with (the bucket magic is the ASCII string "BKTR" read as
  a big-endian 32-bit integer). \<^verbatim>\<open>NcmContentType\<close> is libnx's enumeration, from
  \<^verbatim>\<open>NcmContentType_Meta = 0\<close> to \<^verbatim>\<open>NcmContentType_DeltaFragment = 6\<close>.
\<close>

definition NCA_BKTR_MAGIC :: u32 where "NCA_BKTR_MAGIC = 0x424B5452"
definition NCA_BKTR_VERSION :: u32 where "NCA_BKTR_VERSION = 1"
definition NcmContentType_Meta :: u8 where "NcmContentType_Meta = 0"
definition NcmContentType_DeltaFragment :: u8 where "NcmContentType_DeltaFragment = 6"

text \<open>\<^verbatim>\<open>titleGetNcmStorageByStorageId\<close> (title.c): whether the storage has a handle.\<close>

definition titleGetNcmStorageByStorageId :: "NcmStorageId \<Rightarrow> bool" where
  "titleGetNcmStorageByStorageId sid =
     (sid = NcmStorageId_GameCard \<or> sid = NcmStorageId_BuiltInSystem
      \<or> sid = NcmStorageId_BuiltInUser \<or> sid = NcmStorageId_SdCard)"

text \<open>\<^verbatim>\<open>aes128CtrContextCreate(ctx, key, ctr)\<close>.\<close>

definition aes128CtrContextCreate :: "bytes \<Rightarrow> bytes \<Rightarrow> Aes128CtrContext" where
  "aes128CtrContextCreate key iv = \<lparr>ctr_key = Some key, ctr_iv = iv\<rparr>"

text \<open>The four bytes of a 32-bit integer in memory order (little endian).\<close>

definition le32_bytes :: "u32 \<Rightarrow> bytes" where
  "le32_bytes x = [ucast x, ucast (drop_bit 8 x), ucast (drop_bit 16 x), ucast (drop_bit 24 x)]"

text \<open>
  The encryption kind of a section (lines 198-213): XTS for every V0 section, else the
  header's tag, \<^verbatim>\<open>Auto\<close> resolved by the slot number.
\<close>

definition fs_section_encryption_type :: "NcaVersion \<Rightarrow> u8 \<Rightarrow> u8 \<Rightarrow> u8" where
  "fs_section_encryption_type v header_tag num =
     (let t = (if v = NcaVersion_Nca0 then NcaEncryptionType_AesXts else header_tag)
      in if t = NcaEncryptionType_Auto
         then (if num = 0 \<or> num = 1 then NcaEncryptionType_AesCtr
               else if num = 2 then NcaEncryptionType_None else t)
         else t)"

text \<open>The section type (lines 219-230), starting from the placeholder \<^verbatim>\<open>Invalid\<close>.\<close>

definition fs_section_type :: "NcaVersion \<Rightarrow> NcaFsHeader \<Rightarrow> u8 \<Rightarrow> u8" where
  "fs_section_type v fh enc =
     (if fs_type fh = NcaFsType_PartitionFs \<and> hash_type fh = NcaHashType_HierarchicalSha256
      then NcaFsSectionType_PartitionFs
      else if fs_type fh = NcaFsType_RomFs \<and> hash_type fh = NcaHashType_HierarchicalIntegrity
      then (if enc = NcaEncryptionType_AesCtrEx then NcaFsSectionType_PatchRomFs
            else NcaFsSectionType_RomFs)
      else if fs_type fh = NcaFsType_RomFs \<and> hash_type fh = NcaHashType_HierarchicalSha256
              \<and> v = NcaVersion_Nca0
      then NcaFsSectionType_Nca0RomFs
      else NcaFsSectionType_Invalid)"

text \<open>
  The crypto state of a section (lines 253-296), set up only when the archive has no rights
  id or its title key was retrieved, and the section is encrypted.
\<close>

definition fs_section_init_crypto :: "nca_env \<Rightarrow> NcaContext \<Rightarrow> NcaFsSectionContext \<Rightarrow> NcaFsSectionContext" where
  "fs_section_init_crypto env out fs =
     (if (\<not> rights_id_available out \<or> (rights_id_available out \<and> titlekey_retrieved out))
         \<and> encryption_type fs > NcaEncryptionType_None
         \<and> encryption_type fs \<le> NcaEncryptionType_AesCtrEx
      then
        let fh = NcaFsHeader_view env (fs_header fs);
            fs1 = fs\<lparr>ctr := aes128CtrInitializePartialCtr env (aes_ctr_upper_iv fh) (section_offset fs)\<rparr>;
            fs2 = (if has_sparse_layer fs1
                   then fs1\<lparr>sparse_ctr := aes128CtrInitializePartialCtr env
                          (memcpy_at (aes_ctr_upper_iv fh) 0
                             (le32_bytes (push_bit 16 (ucast (generation (sparse_info fh))))) 0 4)
                          (sparse_table_offset fs1)\<rparr>
                   else fs1)
        in if rights_id_available out
           then
             (let fs3 = fs2\<lparr>ctr_ctx := aes128CtrContextCreate (titlekey out) (ctr fs2)\<rparr>
              in if has_sparse_layer fs3
                 then fs3\<lparr>sparse_ctr_ctx := aes128CtrContextCreate (titlekey out) (sparse_ctr fs3)\<rparr>
                 else fs3)
           else if encryption_type fs2 = NcaEncryptionType_AesXts
           then fs2\<lparr>xts_decrypt_ctx := key_area_xts_ctx out False,
                    xts_encrypt_ctx := key_area_xts_ctx out True\<rparr>
           else if encryption_type fs2 = NcaEncryptionType_AesCtr
                   \<or> encryption_type fs2 = NcaEncryptionType_AesCtrEx
           then
             (let fs3 = fs2\<lparr>ctr_ctx := aes128CtrContextCreate (aes_ctr (decrypted_key_area out)) (ctr fs2)\<rparr>
              in if has_sparse_layer fs3
                 then fs3\<lparr>sparse_ctr_ctx :=
                          aes128CtrContextCreate (aes_ctr (decrypted_key_area out)) (sparse_ctr fs3)\<rparr>
                 else fs3)
           else fs2
      else fs)"

text \<open>
  One pass of the section loop of \<^verbatim>\<open>ncaInitializeContext\<close> (lines 166-303) for slot i:
  the section context it leaves. Every \<^verbatim>\<open>continue\<close> keeps the fields set up to that
  point; the section counts as valid exactly when \<open>enabled\<close> has been set.
\<close>

definition ncaInitializeFsSection :: "nca_env \<Rightarrow> NcaContext \<Rightarrow> nat \<Rightarrow> NcaFsSectionContext" where
  "ncaInitializeFsSection env out i =
     (let h = NcaHeader_view env (header out);
          fi = fs_info h ! i;
          fh = NcaFsHeader_view env (fs_header (fs_ctx out ! i));
          sp = sparse_info fh;
          fs0 = (fs_ctx out ! i)\<lparr>nca_ctx := True, section_num := of_nat i,
                   section_type := NcaFsSectionType_Invalid,
                   has_sparse_layer := (generation sp \<noteq> 0)\<rparr>
      in if \<not> ncaIsFsInfoEntryValid fi then fs0
         else if take SHA256_HASH_SIZE
                   (sha256CalculateHash env (take (unat sizeof_NcaFsHeader) (fs_header fs0)))
                 \<noteq> take SHA256_HASH_SIZE (fs_header_hash h ! i)
         then fs0
         else
           let fs1 = fs0\<lparr>section_offset := NCA_FS_SECTOR_OFFSET (start_sector fi)\<rparr>;
               fs2 = fs1\<lparr>section_size := NCA_FS_SECTOR_OFFSET (end_sector fi) - section_offset fs1\<rparr>
           in if section_offset fs2 < sizeof_NcaHeader \<or> section_size fs2 = 0 then fs2
              else
                let fs3 = fs2\<lparr>encryption_type :=
                            fs_section_encryption_type (format_version out) (hdr_encryption_type fh)
                              (section_num fs2)\<rparr>
                in if encryption_type fs3 = NcaEncryptionType_Auto
                      \<or> encryption_type fs3 > NcaEncryptionType_AesCtrEx
                   then fs3
                   else
                     let fs4 = fs3\<lparr>section_type :=
                                 fs_section_type (format_version out) fh (encryption_type fs3)\<rparr>
                     in if section_type fs4 \<ge> NcaFsSectionType_Invalid then fs4
                        else if has_sparse_layer fs4
                        then
                          (let raw_storage_offset = physical_offset sp;
                               raw_storage_size = bucket_offset sp + bucket_size sp
                           in if bswap32 (bucket_magic sp) \<noteq> NCA_BKTR_MAGIC
                                 \<or> bucket_version sp \<noteq> NCA_BKTR_VERSION
                                 \<or> raw_storage_offset < sizeof_NcaHeader \<or> raw_storage_size = 0
                                 \<or> raw_storage_offset + raw_storage_size > content_size out
                                 \<or> bucket_entry_count sp = 0
                              then fs4
                              else
                                (fs_section_init_crypto env out
                                   (fs4\<lparr>sparse_table_offset := physical_offset sp + bucket_offset sp,
                                        sparse_table_size := bucket_size sp\<rparr>))
                                \<lparr>enabled := True\<rparr>)
                        else if section_offset fs4 + section_size fs4 > content_size out then fs4
                        else (fs_section_init_crypto env out fs4)\<lparr>enabled := True\<rparr>)"

text \<open>The section loop: slot by slot, counting the sections it enabled.\<close>

fun ncaInitializeFsSections :: "nca_env \<Rightarrow> nat list \<Rightarrow> NcaContext \<times> nat \<Rightarrow> NcaContext \<times> nat" where
  "ncaInitializeFsSections env [] (out, cnt) = (out, cnt)"
| "ncaInitializeFsSections env (i # is) (out, cnt) =
     (let fs = ncaInitializeFsSection env out i
      in ncaInitializeFsSections env is
           (out\<lparr>fs_ctx := (fs_ctx out)[i := fs]\<rparr>, if enabled fs then cnt + 1 else cnt))"

text \<open>
  \<^verbatim>\<open>ncaInitializeContext\<close> (lines 91-308). \<open>out\<close> is the caller's context as it is before
  the call (left untouched when the parameters are refused); the content info is a pointer
  the function tests, the ticket an optional one. The ticket the lookup fills in is the
  caller's and is not part of the result.
\<close>

definition ncaInitializeContext ::
  "nca_env \<Rightarrow> NcaContext \<Rightarrow> NcmStorageId \<Rightarrow> u8 \<Rightarrow> NcmContentInfo option \<Rightarrow> Ticket option
   \<Rightarrow> bool \<times> NcaContext" where
  "ncaInitializeContext env out sid hfs_partition_type content_info tik =
     (case content_info of
        None \<Rightarrow> (False, out)
      | Some ci \<Rightarrow>
          if (sid \<noteq> NcmStorageId_GameCard \<and> \<not> titleGetNcmStorageByStorageId sid)
             \<or> (sid = NcmStorageId_GameCard
                 \<and> (hfs_partition_type = 0
                      \<or> hfs_partition_type \<ge> GameCardHashFileSystemPartitionType_Count env))
             \<or> info_content_type ci > NcmContentType_DeltaFragment
          then (False, out)
          else
            let out1 = NcaContext_zero\<lparr>storage_id := sid,
                         ncm_storage := (sid \<noteq> NcmStorageId_GameCard),
                         content_id := take 0x10 (info_content_id ci)\<rparr>;
                out2 = out1\<lparr>content_id_str := utilsGenerateHexStringFromData env (content_id out1),
                            hash_str := utilsGenerateHexStringFromData env (hash out1),
                            content_type := info_content_type ci,
                            id_offset := info_id_offset ci,
                            content_size := titleConvertNcmContentSizeToU64 env (info_size ci)\<rparr>
            in if content_size out2 < NCA_FULL_HEADER_LENGTH then (False, out2)
               else
                 (case (if storage_id out2 = NcmStorageId_GameCard
                        then (case gamecardGetHashFileSystemEntryInfoByName env hfs_partition_type
                                     (content_id_str out2 @ ''.''
                                      @ (if content_type out2 = NcmContentType_Meta
                                         then ''cnmt.nca'' else ''nca'')) of
                                None \<Rightarrow> None
                              | Some off \<Rightarrow> Some (out2\<lparr>gamecard_offset := off\<rparr>))
                        else Some out2) of
                    None \<Rightarrow> (False, out2)
                  | Some out3 \<Rightarrow>
                      (case ncaReadDecryptedHeader env out3 of
                         (False, out4) \<Rightarrow> (False, out4)
                       | (True, out4) \<Rightarrow>
                           let out5 =
                                 (if rights_id_available out4
                                  then (case tikRetrieveTicketByRightsId env
                                               (case tik of None \<Rightarrow> \<lparr>dec_titlekey = replicate 0x10 0\<rparr>
                                                | Some t \<Rightarrow> t)
                                               (rights_id (NcaHeader_view env (header out4)))
                                               (storage_id out4 = NcmStorageId_GameCard) of
                                          None \<Rightarrow> out4
                                        | Some t \<Rightarrow>
                                            out4\<lparr>titlekey := take 0x10 (dec_titlekey t),
                                                 titlekey_retrieved := True\<rparr>)
                                  else out4);
                               res = ncaInitializeFsSections env [0..<NCA_FS_HEADER_COUNT] (out5, 0)
                           in (snd res > 0, fst res))))"

section \<open>Header mutation helpers\<close>

text \<open>\<^verbatim>\<open>ncaSetDownloadDistributionType\<close> (lines 408-414).\<close>

definition ncaSetDownloadDistributionType :: "nca_env \<Rightarrow> NcaContext option \<Rightarrow> NcaContext option" where
  "ncaSetDownloadDistributionType env ctx =
     (case ctx of
        None \<Rightarrow> None
      | Some c \<Rightarrow>
          let h = NcaHeader_view env (header c)
          in if content_size c < NCA_FULL_HEADER_LENGTH \<or> content_id_str c = []
                \<or> content_type c > NcmContentType_DeltaFragment
                \<or> distribution_type h = NcaDistributionType_Download
             then Some c
             else Some (c\<lparr>header := NcaHeader_store env
                           (h\<lparr>distribution_type := NcaDistributionType_Download\<rparr>) (header c)\<rparr>))"

text \<open>\<^verbatim>\<open>ncaRemoveTitleKeyCrypto\<close> (lines 416-457).\<close>

definition ncaRemoveTitleKeyCrypto :: "nca_env \<Rightarrow> NcaContext option \<Rightarrow> bool \<times> NcaContext option" where
  "ncaRemoveTitleKeyCrypto env ctx =
     (case ctx of
        None \<Rightarrow> (False, None)
      | Some c \<Rightarrow>
          if content_size c < NCA_FULL_HEADER_LENGTH \<or> content_id_str c = []
             \<or> content_type c > NcmContentType_DeltaFragment
          then (False, Some c)
          else if \<not> rights_id_available c \<or> \<not> titlekey_retrieved c then (True, Some c)
          else
            let c1 = c\<lparr>decrypted_key_area :=
                        memcpy_at (decrypted_key_area c) (2 * AES_128_KEY_SIZE) (titlekey c) 0
                          AES_128_KEY_SIZE\<rparr>
            in (case ncaEncryptKeyArea env c1 of
                  (False, c2) \<Rightarrow> (False, Some c2)
                | (True, c2) \<Rightarrow>
                    (True,
                     Some (c2\<lparr>header := NcaHeader_store env
                                ((NcaHeader_view env (header c2))\<lparr>rights_id := replicate 0x10 0\<rparr>)
                                (header c2),
                              rights_id_available := False\<rparr>))))"

text \<open>\<^verbatim>\<open>ncaUpdateContentIdAndHash\<close> (lines 548-559).\<close>

definition ncaUpdateContentIdAndHash :: "nca_env \<Rightarrow> NcaContext option \<Rightarrow> bytes \<Rightarrow> NcaContext option" where
  "ncaUpdateContentIdAndHash env ctx h =
     (case ctx of
        None \<Rightarrow> None
      | Some c \<Rightarrow>
          let c1 = c\<lparr>content_id := memcpy_at (content_id c) 0 h 0 0x10\<rparr>;
              c2 = c1\<lparr>content_id_str := utilsGenerateHexStringFromData env (content_id c1)\<rparr>;
              c3 = c2\<lparr>hash := memcpy_at (hash c2) 0 h 0 SHA256_HASH_SIZE\<rparr>
          in Some (c3\<lparr>hash_str := utilsGenerateHexStringFromData env (hash c3)\<rparr>))"

subsection \<open>Vocabulary for the statements about the header codec\<close>



definition fs_slot_populated :: "nca_env \<Rightarrow> NcaContext \<Rightarrow> nat \<Rightarrow> bool" where
  "fs_slot_populated env ctx i =
     ncaIsFsInfoEntryValid (fs_info (NcaHeader_view env (header ctx)) ! i)"

definition fs_slot_sector :: "nca_env \<Rightarrow> NcaContext \<Rightarrow> nat \<Rightarrow> u64" where
  "fs_slot_sector env ctx i =
     fs_header_sector (format_version ctx) i
       (start_sector (fs_info (NcaHeader_view env (header ctx)) ! i))"

definition fs_slot_offset :: "nca_env \<Rightarrow> NcaContext \<Rightarrow> nat \<Rightarrow> u64" where
  "fs_slot_offset env ctx i =
     fs_header_offset (format_version ctx) i
       (start_sector (fs_info (NcaHeader_view env (header ctx)) ! i))"


section \<open>An example archive\<close>

text \<open>
  A small instance of the collaborators, used to run the model: the XTS primitive is a byte
  mask that depends on the first key byte and on the sector number (so it is its own
  inverse), the key-area cipher is a constant mask, the hash is constant, storage reads
  return zero bytes, and the header layouts are constant views. The archive is a V3 archive
  of 0x2000 bytes on the SD card, with one populated section slot.
\<close>

definition example_xts ::
  "Aes128XtsContext option \<Rightarrow> bytes \<Rightarrow> u64 \<Rightarrow> u64 \<Rightarrow> u64 \<Rightarrow> bool \<Rightarrow> u64 \<times> bytes" where
  "example_xts c src n sector sector_size encrypt =
     (n, map (\<lambda>b. b XOR (case c of None \<Rightarrow> 0
                          | Some k \<Rightarrow> (if xts_key1 k = [] then 0 else hd (xts_key1 k)))
                  XOR ucast sector) src)"

definition example_fs_info :: NcaFsInfo where
  "example_fs_info = \<lparr>start_sector = 6, end_sector = 8, fs_info_rest = replicate 8 0\<rparr>"

definition empty_fs_info :: NcaFsInfo where
  "empty_fs_info = \<lparr>start_sector = 0, end_sector = 0, fs_info_rest = replicate 8 0\<rparr>"

definition example_header :: NcaHeader where
  "example_header =
     \<lparr>main_signature = replicate 0x100 0, magic = 0x3341434E,
      distribution_type = NcaDistributionType_GameCard, key_generation_old = 0, kaek_index = 0,
      hdr_content_size = 0x2000, hdr_key_generation = 0, main_signature_key_generation = 0,
      rights_id = replicate 0x10 0,
      fs_info = [example_fs_info, empty_fs_info, empty_fs_info, empty_fs_info],
      fs_header_hash = replicate 4 (replicate 0x20 0xAB),
      encrypted_key_area = replicate 0x40 0x77\<rparr>"

definition example_fs_header :: NcaFsHeader where
  "example_fs_header =
     \<lparr>fs_type = NcaFsType_RomFs, hash_type = NcaHashType_HierarchicalIntegrity,
      hdr_encryption_type = NcaEncryptionType_AesCtr,
      hierarchical_sha256_data =
        \<lparr>sha256_master_hash = replicate 0x20 0, hash_block_size = 0, hash_region_count = 0,
         hash_region = replicate 5 \<lparr>region_offset = 0, region_size = 0\<rparr>\<rparr>,
      integrity_meta_info =
        \<lparr>max_level_count = 7,
         level_information = replicate 6 \<lparr>level_offset = 0, level_size = 0x40, block_order = 4\<rparr>,
         integrity_master_hash = replicate 0x20 0\<rparr>,
      aes_ctr_upper_iv = replicate 8 0,
      sparse_info =
        \<lparr>bucket_offset = 0, bucket_size = 0, bucket_magic = 0, bucket_version = 0,
         bucket_entry_count = 0, physical_offset = 0, generation = 0\<rparr>\<rparr>"

definition example_env :: nca_env where
  "example_env =
     \<lparr>keysGetNcaHeaderKey = Some (replicate 0x20 0x11),
      keysDecryptNcaKeyAreaEntry = (\<lambda>kaek gen src. Some (map (\<lambda>b. b XOR 0x5A) src)),
      keysGetNcaKeyAreaEncryptionKey = (\<lambda>kaek gen. Some (replicate 0x10 0x5A)),
      keysGetNcaMainSignatureModulus = (\<lambda>gen. None),
      aes128XtsNintendoCrypt = example_xts,
      aes128EncryptBlock = (\<lambda>key src. map (\<lambda>b. b XOR 0x5A) src),
      aes128CtrCrypt = (\<lambda>c src n. map (\<lambda>b. b XOR 0x33) src),
      aes128CtrInitializePartialCtr = (\<lambda>iv off. iv @ replicate 8 0),
      aes128CtrUpdatePartialCtr = (\<lambda>iv off. iv),
      rsa2048VerifySha256BasedPssSignature = (\<lambda>d s m e. False),
      sha256CalculateHash = (\<lambda>d. replicate 0x20 0xAB),
      ncmContentStorageReadContentIdFile = (\<lambda>cid n off. Some (replicate (unat n) 0)),
      gamecardReadStorage = (\<lambda>n off. Some (replicate (unat n) 0)),
      gamecardGetHashFileSystemEntryInfoByName = (\<lambda>t name. Some 0x1000),
      GameCardHashFileSystemPartitionType_Count = 5,
      tikRetrieveTicketByRightsId = (\<lambda>t rid g. None),
      titleConvertNcmContentSizeToU64 = (\<lambda>bs. foldr (\<lambda>b acc. ucast b + 0x100 * acc) bs 0),
      utilsGenerateHexStringFromData = (\<lambda>bs. replicate (2 * length bs) CHR ''0''),
      NcaHeader_view = (\<lambda>img. example_header),
      NcaHeader_store = (\<lambda>h img. img),
      NcaHeader_signature_area = (\<lambda>img. take 0x200 (drop 0x200 img)),
      NcaFsHeader_view = (\<lambda>img. example_fs_header),
      NcaFsHeader_store = (\<lambda>h img. img),
      g_ncaCryptoBuffer = True,
      alloc_ok = (\<lambda>n. True)\<rparr>"

definition example_content_info :: NcmContentInfo where
  "example_content_info =
     \<lparr>info_content_id = replicate 0x10 0, info_size = [0, 0x20, 0, 0, 0, 0],
      info_content_type = 1, info_id_offset = 0\<rparr>"

definition example_archive :: NcaContext where
  "example_archive =
     NcaContext_zero\<lparr>storage_id := NcmStorageId_SdCard, ncm_storage := True,
                      content_id_str := ''00000000000000000000000000000000'',
                      content_type := 1, content_size := 0x2000\<rparr>"

text \<open>The example archive after its headers have been read.\<close>

definition example_read :: NcaContext where
  "example_read = snd (ncaReadDecryptedHeader example_env example_archive)"

subsection \<open>The sector law in the specification's words\<close>

text \<open>
  The sector numbers as the specification gives them: for a section header, \<open>2 + i\<close> for
  a V3 archive, 0 for V2 and \<open>start_sector - 2\<close> for V0; for a payload read,
  \<open>(content_offset - header_length) / 0x200\<close> for V0 and \<open>offset / 0x200\<close> otherwise.
  \<open>fs_read_accepted\<close> says that a read request passes the parameter checks of
  \<^verbatim>\<open>_ncaReadFsSection\<close> (lines 823-847).
\<close>

definition spec_header_sector :: "NcaVersion \<Rightarrow> nat \<Rightarrow> u32 \<Rightarrow> u64" where
  "spec_header_sector v i start =
     (case v of
        NcaVersion_Nca3 \<Rightarrow> 2 + of_nat i
      | NcaVersion_Nca2 \<Rightarrow> 0
      | NcaVersion_Nca0 \<Rightarrow> ucast (start - 2))"

definition spec_payload_sector :: "NcaVersion \<Rightarrow> u64 \<Rightarrow> u64 \<Rightarrow> u64" where
  "spec_payload_sector v offset content_offset =
     (case v of
        NcaVersion_Nca0 \<Rightarrow> (content_offset - 0x400) div 0x200
      | NcaVersion_Nca2 \<Rightarrow> offset div 0x200
      | NcaVersion_Nca3 \<Rightarrow> offset div 0x200)"

definition fs_read_accepted :: "nca_env \<Rightarrow> NcaContext \<Rightarrow> nat \<Rightarrow> u64 \<Rightarrow> u64 \<Rightarrow> bool" where
  "fs_read_accepted env nca idx read_size offset =
     (g_ncaCryptoBuffer env \<and> idx < length (fs_ctx nca)
      \<and> (let ctx = fs_ctx nca ! idx
         in enabled ctx \<and> nca_ctx ctx \<and> unat (section_num ctx) < NCA_FS_HEADER_COUNT
            \<and> sizeof_NcaHeader \<le> section_offset ctx
            \<and> section_type ctx < NcaFsSectionType_Invalid
            \<and> encryption_type ctx \<noteq> NcaEncryptionType_Auto
            \<and> encryption_type ctx \<le> NcaEncryptionType_AesCtrEx
            \<and> read_size \<noteq> 0 \<and> offset + read_size \<le> section_size ctx
            \<and> content_id_str nca \<noteq> []
            \<and> (storage_id nca = NcmStorageId_GameCard \<or> ncm_storage nca)
            \<and> (storage_id nca \<noteq> NcmStorageId_GameCard \<or> gamecard_offset nca \<noteq> 0)
            \<and> section_offset ctx + offset + read_size \<le> content_size nca))"

text \<open>An XTS section of the example archive, to run a payload read.\<close>

definition example_xts_archive :: NcaContext where
  "example_xts_archive =
     example_archive\<lparr>fs_ctx :=
       [NcaFsSectionContext_zero\<lparr>enabled := True, nca_ctx := True, section_offset := 0xC00,
          section_size := 0x400, section_type := NcaFsSectionType_RomFs,
          encryption_type := NcaEncryptionType_AesXts,
          xts_decrypt_ctx := aes128XtsContextCreate (replicate 0x10 0x21) (replicate 0x10 0x22) False,
          xts_encrypt_ctx := aes128XtsContextCreate (replicate 0x10 0x21) (replicate 0x10 0x22) True\<rparr>,
        NcaFsSectionContext_zero, NcaFsSectionContext_zero, NcaFsSectionContext_zero]\<rparr>"

subsection \<open>Vocabulary for the statements about the main signature\<close>

text \<open>
  \<open>header_decrypts\<close> says that the archive header can be read and decrypted and has a
  valid magic and the declared size, which is where \<^verbatim>\<open>ncaReadDecryptedHeader\<close> goes on to
  fill in the context (line 625). \<open>header_image\<close> is the context at that point, before the
  signature is looked at (lines 613-640). \<open>with_signature_check\<close> replaces the two
  collaborators the signature verification uses, the modulus lookup and the RSA
  primitive. \<open>forget_signature\<close> clears the flag the verification result is stored in.
\<close>

definition header_decrypts :: "nca_env \<Rightarrow> NcaContext \<Rightarrow> bool" where
  "header_decrypts env ctx =
     (content_id_str ctx \<noteq> [] \<and> \<not> content_size ctx < NCA_FULL_HEADER_LENGTH
      \<and> (case keysGetNcaHeaderKey env of
            None \<Rightarrow> False
          | Some header_key \<Rightarrow>
              (case ncaReadContentFile env ctx sizeof_NcaHeader 0 of
                 None \<Rightarrow> False
               | Some enc \<Rightarrow>
                   let res = aes128XtsNintendoCrypt env (header_key_ctx header_key False) enc
                               sizeof_NcaHeader 0 NCA_AES_XTS_SECTOR_SIZE False;
                       h = NcaHeader_view env (snd res);
                       m = bswap32 (magic h)
                   in fst res = sizeof_NcaHeader
                      \<and> (m = NCA_NCA3_MAGIC \<or> m = NCA_NCA2_MAGIC \<or> m = NCA_NCA0_MAGIC)
                      \<and> hdr_content_size h = content_size ctx)))"

definition header_image :: "nca_env \<Rightarrow> NcaContext \<Rightarrow> NcaContext" where
  "header_image env ctx =
     (case keysGetNcaHeaderKey env of
        None \<Rightarrow> ctx
      | Some header_key \<Rightarrow>
          (case ncaReadContentFile env ctx sizeof_NcaHeader 0 of
             None \<Rightarrow> ctx
           | Some enc \<Rightarrow>
               let res = aes128XtsNintendoCrypt env (header_key_ctx header_key False) enc
                           sizeof_NcaHeader 0 NCA_AES_XTS_SECTOR_SIZE False;
                   ctx1 = ctx\<lparr>encrypted_header := enc, header := snd res\<rparr>;
                   m = bswap32 (magic (NcaHeader_view env (header ctx1)));
                   ctx2 = ctx1\<lparr>format_version :=
                             (if m = NCA_NCA3_MAGIC then NcaVersion_Nca3
                              else if m = NCA_NCA2_MAGIC then NcaVersion_Nca2
                              else NcaVersion_Nca0)\<rparr>;
                   ctx3 = ctx2\<lparr>key_generation := ncaGetKeyGenerationValue env ctx2\<rparr>;
                   ctx4 = ctx3\<lparr>rights_id_available := ncaCheckRightsIdAvailability env ctx3\<rparr>
               in ctx4\<lparr>header_hash :=
                         sha256CalculateHash env (take (unat sizeof_NcaHeader) (header ctx4))\<rparr>))"

definition with_signature_check ::
  "(u8 \<Rightarrow> bytes option) \<Rightarrow> (bytes \<Rightarrow> bytes \<Rightarrow> bytes \<Rightarrow> bytes \<Rightarrow> bool) \<Rightarrow> nca_env \<Rightarrow> nca_env" where
  "with_signature_check g f env =
     env\<lparr>keysGetNcaMainSignatureModulus := g, rsa2048VerifySha256BasedPssSignature := f\<rparr>"

definition forget_signature :: "NcaContext \<Rightarrow> NcaContext" where
  "forget_signature c = c\<lparr>valid_main_signature := False\<rparr>"

subsection \<open>The phases of context initialization\<close>

text \<open>
  The blocks \<^verbatim>\<open>ncaInitializeContext\<close> is made of, named so that statements can refer to
  them: the context as filled in from the content info (lines 107-118), the lookup of the
  archive on the game card (lines 127-139), the retrieval of the title key (lines 148-163),
  and the section loop with the final test (lines 166-307).
\<close>

definition init_context :: "nca_env \<Rightarrow> NcmStorageId \<Rightarrow> NcmContentInfo \<Rightarrow> NcaContext" where
  "init_context env sid ci =
     (let out1 = NcaContext_zero\<lparr>storage_id := sid,
                   ncm_storage := (sid \<noteq> NcmStorageId_GameCard),
                   content_id := take 0x10 (info_content_id ci)\<rparr>
      in out1\<lparr>content_id_str := utilsGenerateHexStringFromData env (content_id out1),
               hash_str := utilsGenerateHexStringFromData env (hash out1),
               content_type := info_content_type ci,
               id_offset := info_id_offset ci,
               content_size := titleConvertNcmContentSizeToU64 env (info_size ci)\<rparr>)"

definition locate_content :: "nca_env \<Rightarrow> u8 \<Rightarrow> NcaContext \<Rightarrow> NcaContext option" where
  "locate_content env hfs_partition_type out2 =
     (if storage_id out2 = NcmStorageId_GameCard
      then (case gamecardGetHashFileSystemEntryInfoByName env hfs_partition_type
                   (content_id_str out2 @ ''.''
                    @ (if content_type out2 = NcmContentType_Meta
                       then ''cnmt.nca'' else ''nca'')) of
              None \<Rightarrow> None
            | Some off \<Rightarrow> Some (out2\<lparr>gamecard_offset := off\<rparr>))
      else Some out2)"

definition retrieve_titlekey :: "nca_env \<Rightarrow> Ticket option \<Rightarrow> NcaContext \<Rightarrow> NcaContext" where
  "retrieve_titlekey env tik out4 =
     (if rights_id_available out4
      then (case tikRetrieveTicketByRightsId env
                   (case tik of None \<Rightarrow> \<lparr>dec_titlekey = replicate 0x10 0\<rparr>
                    | Some t \<Rightarrow> t)
                   (rights_id (NcaHeader_view env (header out4)))
                   (storage_id out4 = NcmStorageId_GameCard) of
              None \<Rightarrow> out4
            | Some t \<Rightarrow>
                out4\<lparr>titlekey := take 0x10 (dec_titlekey t),
                     titlekey_retrieved := True\<rparr>)
      else out4)"

definition initialize_sections :: "nca_env \<Rightarrow> NcaContext \<Rightarrow> bool \<times> NcaContext" where
  "initialize_sections env out5 =
     (let res = ncaInitializeFsSections env [0..<NCA_FS_HEADER_COUNT] (out5, 0)
      in (snd res > 0, fst res))"

definition init_refused :: "nca_env \<Rightarrow> NcmStorageId \<Rightarrow> u8 \<Rightarrow> NcmContentInfo \<Rightarrow> bool" where
  "init_refused env sid hfs_partition_type ci =
     ((sid \<noteq> NcmStorageId_GameCard \<and> \<not> titleGetNcmStorageByStorageId sid)
      \<or> (sid = NcmStorageId_GameCard
          \<and> (hfs_partition_type = 0
               \<or> hfs_partition_type \<ge> GameCardHashFileSystemPartitionType_Count env))
      \<or> info_content_type ci > NcmContentType_DeltaFragment)"

text \<open>The initialization of the example archive from its content info.\<close>

definition example_init :: "bool \<times> NcaContext" where
  "example_init =
     ncaInitializeContext example_env NcaContext_zero NcmStorageId_SdCard 0
       (Some example_content_info) None"

subsection \<open>Vocabulary for the statements about the section loop\<close>





section \<open>64-bit arithmetic\<close>

lemma u64_add_no_wrap:
  fixes a b :: u64
  assumes "unat a + unat b < 2 ^ 64"
  shows "unat (a + b) = unat a + unat b"
  using assms by (simp add: unat_word_ariths)

lemma u64_sub_le:
  fixes a b :: u64
  assumes "unat b \<le> unat a"
  shows "unat (a - b) = unat a - unat b"
  using assms by (simp add: unat_sub word_le_nat_alt)

lemma u64_eq_unat:
  fixes a b :: u64
  shows "(a = b) = (unat a = unat b)"
  by (rule word_unat_eq_iff)

section \<open>Section reads\<close>

text \<open>
  \<^verbatim>\<open>_ncaReadFsSection\<close> (lines 821-936), here \<open>u_ncaReadFsSection\<close> since a name
  cannot start with an underscore. The section context is addressed by its slot in the
  archive context (an index out of range is the \<^verbatim>\<open>NULL\<close> pointer), the
  \<^verbatim>\<open>nca_ctx\<close> back pointer points at that archive context. The function returns its
  success flag, the output buffer and the archive context, whose counter state a CTR read
  updates.

  The crypto unit of a section is the XTS sector for XTS sections and the AES block
  otherwise (lines 893-894); \<open>fs_xts_sector\<close> is the sector number of lines 871 and 912;
  \<open>fs_aligned\<close> is the test of lines 850-852; the block and chunk sizes are those of
  lines 893-899.
\<close>

definition fs_crypt_unit :: "u8 \<Rightarrow> u64" where
  "fs_crypt_unit enc =
     (if enc = NcaEncryptionType_AesXts then NCA_AES_XTS_SECTOR_SIZE else AES_BLOCK_SIZE)"

definition fs_xts_sector :: "NcaVersion \<Rightarrow> u64 \<Rightarrow> u64 \<Rightarrow> u64" where
  "fs_xts_sector v offset content_offset =
     (if v \<noteq> NcaVersion_Nca0 then offset else content_offset - sizeof_NcaHeader)
     div NCA_AES_XTS_SECTOR_SIZE"

definition fs_aligned :: "u8 \<Rightarrow> u64 \<Rightarrow> u64 \<Rightarrow> bool" where
  "fs_aligned enc content_offset n =
     (enc = NcaEncryptionType_None
      \<or> (enc = NcaEncryptionType_AesXts \<and> content_offset mod NCA_AES_XTS_SECTOR_SIZE = 0
          \<and> n mod NCA_AES_XTS_SECTOR_SIZE = 0)
      \<or> ((enc = NcaEncryptionType_AesCtr \<or> enc = NcaEncryptionType_AesCtrEx)
          \<and> content_offset mod AES_BLOCK_SIZE = 0 \<and> n mod AES_BLOCK_SIZE = 0))"

definition fs_block_start :: "u8 \<Rightarrow> u64 \<Rightarrow> u64" where
  "fs_block_start enc content_offset = ALIGN_DOWN content_offset (fs_crypt_unit enc)"

definition fs_block_size :: "u8 \<Rightarrow> u64 \<Rightarrow> u64 \<Rightarrow> u64" where
  "fs_block_size enc content_offset n =
     ALIGN_UP (content_offset + n) (fs_crypt_unit enc) - fs_block_start enc content_offset"

definition fs_data_start :: "u8 \<Rightarrow> u64 \<Rightarrow> u64" where
  "fs_data_start enc content_offset = content_offset - fs_block_start enc content_offset"

definition fs_chunk_size :: "u8 \<Rightarrow> u64 \<Rightarrow> u64 \<Rightarrow> u64" where
  "fs_chunk_size enc content_offset n =
     (if fs_block_size enc content_offset n > NCA_CRYPTO_BUFFER_SIZE then NCA_CRYPTO_BUFFER_SIZE
      else fs_block_size enc content_offset n)"

definition fs_out_chunk_size :: "u8 \<Rightarrow> u64 \<Rightarrow> u64 \<Rightarrow> u64" where
  "fs_out_chunk_size enc content_offset n =
     (if fs_block_size enc content_offset n > NCA_CRYPTO_BUFFER_SIZE
      then NCA_CRYPTO_BUFFER_SIZE - fs_data_start enc content_offset
      else n)"

subsection \<open>The tail of an unaligned read is shorter than the read\<close>

text \<open>
  When the aligned block around the request is larger than the staging buffer, the function
  serves \<open>fs_out_chunk_size\<close> bytes and calls itself on the rest. The rest is strictly
  shorter, in 64-bit arithmetic and for every offset, so the recursion ends.
\<close>

lemma unit_cases: "fs_crypt_unit enc = 0x200 \<or> fs_crypt_unit enc = 0x10"
  by (simp add: fs_crypt_unit_def NCA_AES_XTS_SECTOR_SIZE_def AES_BLOCK_SIZE_def)

lemma align_down_mod:
  fixes x u :: u64
  shows "x - ALIGN_DOWN x u = x mod u"
proof -
  have "x div u * u + x mod u = x"
    by (rule div_mult_mod_eq)
  then show ?thesis
    unfolding ALIGN_DOWN_def by (metis add_diff_cancel_left')
qed

lemma align_up_pad:
  fixes x u :: u64
  shows "ALIGN_UP x u - x = (u - 1) - (x + (u - 1)) mod u"
proof -
  have "(x + (u - 1)) div u * u + (x + (u - 1)) mod u = x + (u - 1)"
    by (rule div_mult_mod_eq)
  then have "(x + (u - 1)) div u * u = x + (u - 1) - (x + (u - 1)) mod u"
    by (metis add_diff_cancel_right')
  then show ?thesis
    unfolding ALIGN_UP_def by simp
qed

lemma block_size_decomp:
  fixes co rs u :: u64
  shows "ALIGN_UP (co + rs) u - ALIGN_DOWN co u
         = ((u - 1) - (co + rs + (u - 1)) mod u) + rs + co mod u"
proof -
  have "ALIGN_UP (co + rs) u - ALIGN_DOWN co u
        = (ALIGN_UP (co + rs) u - (co + rs)) + rs + (co - ALIGN_DOWN co u)"
    by simp
  then show ?thesis
    by (simp only: align_up_pad align_down_mod)
qed

lemma unat_add_le3:
  fixes a b c :: u64
  shows "unat (a + b + c) \<le> unat a + unat b + unat c"
proof -
  have "unat (a + b + c) \<le> unat (a + b) + unat c"
    by (simp add: unat_word_ariths)
  also have "unat (a + b) \<le> unat a + unat b"
    by (simp add: unat_word_ariths)
  finally show ?thesis by simp
qed

lemma unat_mod_less:
  fixes x u :: u64
  assumes "u \<noteq> 0"
  shows "unat (x mod u) < unat u"
proof -
  have "unat u \<noteq> 0"
    using assms by (simp add: unat_eq_0)
  then show ?thesis
    by (simp add: unat_mod)
qed

lemma unit_dvd_block_size:
  fixes x y u :: u64
  assumes "unat u dvd 2 ^ 64"
  shows "unat u dvd unat (ALIGN_UP x u - ALIGN_DOWN y u)"
proof -
  have "ALIGN_UP x u - ALIGN_DOWN y u = ((x + (u - 1)) div u - y div u) * u"
    by (simp add: ALIGN_UP_def ALIGN_DOWN_def algebra_simps)
  then have "unat (ALIGN_UP x u - ALIGN_DOWN y u)
             = (unat ((x + (u - 1)) div u - y div u) * unat u) mod 2 ^ 64"
    by (simp add: unat_word_ariths)
  then show ?thesis
    using assms by (simp add: dvd_mod)
qed

lemma read_size_decreases:
  fixes co rs u :: u64
  assumes u: "u = 0x200 \<or> u = 0x10"
      and big: "ALIGN_UP (co + rs) u - ALIGN_DOWN co u > NCA_CRYPTO_BUFFER_SIZE"
  shows "unat (rs - (NCA_CRYPTO_BUFFER_SIZE - (co - ALIGN_DOWN co u))) < unat rs"
proof -
  define U where "U = unat u"
  define D where "D = unat (co mod u)"
  define P where "P = unat ((u - 1) - (co + rs + (u - 1)) mod u)"
  define R where "R = unat rs"
  define S where "S = unat (ALIGN_UP (co + rs) u - ALIGN_DOWN co u)"
  have U: "U = 512 \<or> U = 16"
    using u by (auto simp add: U_def)
  have u0: "u \<noteq> 0"
    using u by auto
  have D: "D < U"
    unfolding D_def U_def using u0 by (rule unat_mod_less)
  have "unat ((co + rs + (u - 1)) mod u) < U"
    unfolding U_def using u0 by (rule unat_mod_less)
  moreover have "unat (u - 1) = U - 1"
    using u by (auto simp add: U_def)
  ultimately have P: "P \<le> U - 1"
    unfolding P_def by (simp add: unat_sub word_le_nat_alt)
  have "S \<le> P + R + D"
    unfolding S_def P_def R_def D_def block_size_decomp by (rule unat_add_le3)
  moreover have "U dvd S"
    unfolding U_def S_def using u by (intro unit_dvd_block_size) auto
  moreover have "S > 8388608"
    using big by (simp add: S_def NCA_CRYPTO_BUFFER_SIZE_def word_less_nat_alt)
  ultimately have RD: "R + D \<ge> 8388608 + 1"
    using U P by (auto elim!: dvdE)
  have "unat (co mod u) \<le> unat (0x800000 :: u64)"
    using D U by (auto simp add: D_def)
  then have "unat (0x800000 - co mod u) = unat (0x800000 :: u64) - unat (co mod u)"
    by (rule u64_sub_le)
  then have ocs: "unat (NCA_CRYPTO_BUFFER_SIZE - (co - ALIGN_DOWN co u)) = 8388608 - D"
    by (simp add: align_down_mod D_def NCA_CRYPTO_BUFFER_SIZE_def)
  have "unat (NCA_CRYPTO_BUFFER_SIZE - (co - ALIGN_DOWN co u)) \<le> unat rs"
    using ocs RD D U by (auto simp add: R_def)
  then have "unat (rs - (NCA_CRYPTO_BUFFER_SIZE - (co - ALIGN_DOWN co u))) = R - (8388608 - D)"
    by (simp add: u64_sub_le ocs R_def)
  then show ?thesis
    using RD D U by (auto simp add: R_def)
qed

lemma fs_read_size_decreases:
  assumes "NCA_CRYPTO_BUFFER_SIZE < fs_block_size enc co rs"
  shows "unat (rs - fs_out_chunk_size enc co rs) < unat rs"
  using assms unit_cases [of enc]
        read_size_decreases [of "fs_crypt_unit enc" co rs]
  by (simp add: fs_out_chunk_size_def fs_block_size_def fs_data_start_def fs_block_start_def)

text \<open>
  The decryption of a chunk in place (lines 868-886 and 909-927): XTS with the section's
  decryption context, or CTR after the counter has been moved to the chunk's offset; a
  plaintext section is left as read.
\<close>

definition fs_decrypt_chunk ::
  "nca_env \<Rightarrow> NcaContext \<Rightarrow> nat \<Rightarrow> bytes \<Rightarrow> u64 \<Rightarrow> u64 \<Rightarrow> u64 \<Rightarrow> bool \<times> bytes \<times> NcaContext" where
  "fs_decrypt_chunk env nca idx src n sector_num ctr_offset =
     (let ctx = fs_ctx nca ! idx
      in if encryption_type ctx = NcaEncryptionType_AesXts
         then
           (let res = aes128XtsNintendoCrypt env (xts_decrypt_ctx ctx) src n sector_num
                        NCA_AES_XTS_SECTOR_SIZE False
            in (fst res = n, snd res, nca))
         else if encryption_type ctx = NcaEncryptionType_AesCtr
                 \<or> encryption_type ctx = NcaEncryptionType_AesCtrEx
         then
           (let ctr' = aes128CtrUpdatePartialCtr env (ctr ctx) ctr_offset;
                cctx = (ctr_ctx ctx)\<lparr>ctr_iv := ctr'\<rparr>
            in (True, aes128CtrCrypt env cctx src n,
                nca\<lparr>fs_ctx := (fs_ctx nca)[idx := ctx\<lparr>ctr := ctr', ctr_ctx := cctx\<rparr>]\<rparr>))
         else (True, src, nca))"

function u_ncaReadFsSection ::
  "nca_env \<Rightarrow> NcaContext \<Rightarrow> nat \<Rightarrow> bytes \<Rightarrow> u64 \<Rightarrow> u64 \<Rightarrow> bool \<times> bytes \<times> NcaContext" where
  "u_ncaReadFsSection env nca idx out read_size offset =
     (if \<not> g_ncaCryptoBuffer env \<or> idx \<ge> length (fs_ctx nca) then (False, out, nca)
      else
        let ctx = fs_ctx nca ! idx;
            enc = encryption_type ctx;
            content_offset = section_offset ctx + offset
        in if \<not> enabled ctx \<or> \<not> nca_ctx ctx \<or> unat (section_num ctx) \<ge> NCA_FS_HEADER_COUNT
              \<or> section_offset ctx < sizeof_NcaHeader
              \<or> section_type ctx \<ge> NcaFsSectionType_Invalid
              \<or> enc = NcaEncryptionType_Auto \<or> enc > NcaEncryptionType_AesCtrEx
              \<or> read_size = 0 \<or> offset + read_size > section_size ctx
           then (False, out, nca)
           else if content_id_str nca = []
                   \<or> (storage_id nca \<noteq> NcmStorageId_GameCard \<and> \<not> ncm_storage nca)
                   \<or> (storage_id nca = NcmStorageId_GameCard \<and> gamecard_offset nca = 0)
                   \<or> content_offset + read_size > content_size nca
           then (False, out, nca)
           else if fs_aligned enc content_offset read_size
           then
             (case ncaReadContentFile env nca read_size content_offset of
                None \<Rightarrow> (False, out, nca)
              | Some d \<Rightarrow>
                  (case fs_decrypt_chunk env nca idx
                          (take (unat read_size) (memcpy_at out 0 d 0 (unat read_size))) read_size
                          (fs_xts_sector (format_version nca) offset content_offset)
                          content_offset of
                     (ok, dec, nca') \<Rightarrow>
                       (ok, memcpy_at (memcpy_at out 0 d 0 (unat read_size)) 0 dec 0 (unat read_size),
                        nca')))
           else
             (case ncaReadContentFile env nca (fs_chunk_size enc content_offset read_size)
                     (fs_block_start enc content_offset) of
                None \<Rightarrow> (False, out, nca)
              | Some d \<Rightarrow>
                  (case fs_decrypt_chunk env nca idx d (fs_chunk_size enc content_offset read_size)
                          (fs_xts_sector (format_version nca) offset content_offset)
                          (fs_block_start enc content_offset) of
                     (ok, dec, nca') \<Rightarrow>
                       if \<not> ok then (False, out, nca')
                       else if fs_block_size enc content_offset read_size > NCA_CRYPTO_BUFFER_SIZE
                       then
                         (case u_ncaReadFsSection env nca' idx
                                 (drop (unat (fs_out_chunk_size enc content_offset read_size))
                                    (memcpy_at out 0 dec (unat (fs_data_start enc content_offset))
                                       (unat (fs_out_chunk_size enc content_offset read_size))))
                                 (read_size - fs_out_chunk_size enc content_offset read_size)
                                 (offset + fs_out_chunk_size enc content_offset read_size) of
                            (r, rest, nca'') \<Rightarrow>
                              (r,
                               take (unat (fs_out_chunk_size enc content_offset read_size))
                                 (memcpy_at out 0 dec (unat (fs_data_start enc content_offset))
                                    (unat (fs_out_chunk_size enc content_offset read_size)))
                               @ rest,
                               nca''))
                       else
                         (True,
                          memcpy_at out 0 dec (unat (fs_data_start enc content_offset))
                            (unat (fs_out_chunk_size enc content_offset read_size)),
                          nca'))))"
  by pat_completeness auto
termination
  by (relation "measure (\<lambda>(env, nca, idx, out, read_size, offset). unat read_size)")
     (simp_all add: fs_read_size_decreases)

section \<open>Encrypted blocks and hash-tree patches\<close>

text \<open>
  The encryption of a block in place (lines 1295-1311 and 1347-1363): XTS with the section's
  encryption context, CTR for a CTR section, nothing otherwise. \<open>fs_aligned_for_write\<close>
  is the test of lines 1279-1281.
\<close>

definition fs_encrypt_chunk ::
  "nca_env \<Rightarrow> NcaContext \<Rightarrow> nat \<Rightarrow> bytes \<Rightarrow> u64 \<Rightarrow> u64 \<Rightarrow> u64 \<Rightarrow> bool \<times> bytes \<times> NcaContext" where
  "fs_encrypt_chunk env nca idx src n sector_num ctr_offset =
     (let ctx = fs_ctx nca ! idx
      in if encryption_type ctx = NcaEncryptionType_AesXts
         then
           (let res = aes128XtsNintendoCrypt env (xts_encrypt_ctx ctx) src n sector_num
                        NCA_AES_XTS_SECTOR_SIZE True
            in (fst res = n, snd res, nca))
         else if encryption_type ctx = NcaEncryptionType_AesCtr
         then
           (let ctr' = aes128CtrUpdatePartialCtr env (ctr ctx) ctr_offset;
                cctx = (ctr_ctx ctx)\<lparr>ctr_iv := ctr'\<rparr>
            in (True, aes128CtrCrypt env cctx src n,
                nca\<lparr>fs_ctx := (fs_ctx nca)[idx := ctx\<lparr>ctr := ctr', ctr_ctx := cctx\<rparr>]\<rparr>))
         else (True, src, nca))"

definition fs_aligned_for_write :: "u8 \<Rightarrow> u64 \<Rightarrow> u64 \<Rightarrow> bool" where
  "fs_aligned_for_write enc content_offset n =
     (enc = NcaEncryptionType_None
      \<or> (enc = NcaEncryptionType_AesXts \<and> content_offset mod NCA_AES_XTS_SECTOR_SIZE = 0
          \<and> n mod NCA_AES_XTS_SECTOR_SIZE = 0)
      \<or> (enc = NcaEncryptionType_AesCtr
          \<and> content_offset mod AES_BLOCK_SIZE = 0 \<and> n mod AES_BLOCK_SIZE = 0))"

text \<open>
  \<^verbatim>\<open>_ncaGenerateEncryptedFsSectionBlock\<close> (lines 1249-1378). The result is the block with
  the size and the offset written through the two output pointers, or \<open>None\<close> for the
  \<^verbatim>\<open>NULL\<close> result; the output pointers of the only caller are never \<^verbatim>\<open>NULL\<close>.
\<close>

definition u_ncaGenerateEncryptedFsSectionBlock ::
  "nca_env \<Rightarrow> NcaContext \<Rightarrow> nat \<Rightarrow> bytes option \<Rightarrow> u64 \<Rightarrow> u64
   \<Rightarrow> (bytes \<times> u64 \<times> u64) option \<times> NcaContext" where
  "u_ncaGenerateEncryptedFsSectionBlock env nca idx data data_size data_offset =
     (if \<not> g_ncaCryptoBuffer env \<or> idx \<ge> length (fs_ctx nca) then (None, nca)
      else
        let ctx = fs_ctx nca ! idx;
            enc = encryption_type ctx;
            content_offset = section_offset ctx + data_offset
        in if \<not> enabled ctx \<or> has_sparse_layer ctx \<or> \<not> nca_ctx ctx
              \<or> unat (section_num ctx) \<ge> NCA_FS_HEADER_COUNT
              \<or> section_offset ctx < sizeof_NcaHeader
              \<or> section_type ctx \<ge> NcaFsSectionType_Invalid
              \<or> enc = NcaEncryptionType_Auto \<or> enc \<ge> NcaEncryptionType_AesCtrEx
              \<or> data = None \<or> data_size = 0 \<or> data_offset + data_size > section_size ctx
           then (None, nca)
           else if content_id_str nca = []
                   \<or> (storage_id nca \<noteq> NcmStorageId_GameCard \<and> \<not> ncm_storage nca)
                   \<or> (storage_id nca = NcmStorageId_GameCard \<and> gamecard_offset nca = 0)
                   \<or> content_offset + data_size > content_size nca
           then (None, nca)
           else if fs_aligned_for_write enc content_offset data_size
           then
             (if \<not> alloc_ok env data_size then (None, nca)
              else
                (case fs_encrypt_chunk env nca idx
                        (memcpy_at (replicate (unat data_size) 0) 0 (the data) 0 (unat data_size))
                        data_size (fs_xts_sector (format_version nca) data_offset content_offset)
                        content_offset of
                   (ok, block, nca') \<Rightarrow>
                     if \<not> ok then (None, nca')
                     else (Some (block, data_size, content_offset), nca')))
           else
             let block_start_offset = ALIGN_DOWN data_offset (fs_crypt_unit enc);
                 block_end_offset = ALIGN_UP (data_offset + data_size) (fs_crypt_unit enc);
                 block_size = block_end_offset - block_start_offset;
                 plain_chunk_offset = data_offset - block_start_offset;
                 content_offset' = section_offset ctx + block_start_offset
             in if \<not> alloc_ok env block_size then (None, nca)
                else
                  (case u_ncaReadFsSection env nca idx (replicate (unat block_size) 0) block_size
                          block_start_offset of
                     (rd, plain, nca1) \<Rightarrow>
                       if \<not> rd then (None, nca1)
                       else
                         (case fs_encrypt_chunk env nca1 idx
                                 (memcpy_at plain (unat plain_chunk_offset) (the data) 0
                                    (unat data_size))
                                 block_size
                                 (fs_xts_sector (format_version nca1) block_start_offset
                                    content_offset')
                                 content_offset' of
                            (ok, block, nca2) \<Rightarrow>
                              if \<not> ok then (None, nca2)
                              else (Some (block, block_size, content_offset'), nca2))))"

text \<open>
  The output of patch generation is one of the two patch structures, both cleared by their
  \<^verbatim>\<open>ncaFree...Patch\<close> function: the entries' data freed, everything zeroed.
\<close>

datatype patch_out =
  Sha256Patch NcaHierarchicalSha256Patch | IntegrityPatch NcaHierarchicalIntegrityPatch

definition NcaHashDataPatch_zero :: NcaHashDataPatch where
  "NcaHashDataPatch_zero = \<lparr>written = False, patch_offset = 0, patch_size = 0, patch_data = None\<rparr>"

definition ncaFreeHierarchicalSha256Patch :: NcaHierarchicalSha256Patch where
  "ncaFreeHierarchicalSha256Patch =
     \<lparr>sha256_patch_written = False, sha256_patch_content_id = replicate 0x10 0,
      hash_region_patch_count = 0, hash_region_patch = replicate 5 NcaHashDataPatch_zero\<rparr>"

definition ncaFreeHierarchicalIntegrityPatch :: NcaHierarchicalIntegrityPatch where
  "ncaFreeHierarchicalIntegrityPatch =
     \<lparr>integrity_patch_written = False, integrity_patch_content_id = replicate 0x10 0,
      hash_level_patch = replicate 6 NcaHashDataPatch_zero\<rparr>"

definition free_patch_out :: "bool \<Rightarrow> patch_out" where
  "free_patch_out is_integrity_patch =
     (if is_integrity_patch then IntegrityPatch ncaFreeHierarchicalIntegrityPatch
      else Sha256Patch ncaFreeHierarchicalSha256Patch)"

text \<open>
  The properties of layer i of the hash tree (lines 1063-1081): a hash region of the
  hierarchical SHA-256 data or a level of the integrity meta information.
  Modelled from the spec: \<^verbatim>\<open>NCA_IVFC_BLOCK_SIZE(x)\<close> of nca.h is two to the power
  \<open>x\<close>, in 32 bits.
\<close>

definition layer_hash_block_size :: "NcaFsHeader \<Rightarrow> bool \<Rightarrow> nat \<Rightarrow> u64" where
  "layer_hash_block_size fh is_integrity_patch i =
     (if \<not> is_integrity_patch then ucast (hash_block_size (hierarchical_sha256_data fh))
      else ucast (push_bit (unat (block_order (level_information (integrity_meta_info fh) ! (i - 1))))
                    (1 :: u32)))"

definition layer_offset :: "NcaFsHeader \<Rightarrow> bool \<Rightarrow> nat \<Rightarrow> u64" where
  "layer_offset fh is_integrity_patch i =
     (if \<not> is_integrity_patch then region_offset (hash_region (hierarchical_sha256_data fh) ! i)
      else level_offset (level_information (integrity_meta_info fh) ! i))"

definition layer_size :: "NcaFsHeader \<Rightarrow> bool \<Rightarrow> nat \<Rightarrow> u64" where
  "layer_size fh is_integrity_patch i =
     (if \<not> is_integrity_patch then region_size (hash_region (hierarchical_sha256_data fh) ! i)
      else level_size (level_information (integrity_meta_info fh) ! i))"

text \<open>
  The loop of lines 1160-1164, which hashes the blocks of the current layer into the parent
  layer. It steps by the hash block size in 64-bit arithmetic and may run forever when that
  addition wraps around, so its result is an option: \<open>None\<close> when it does not return.
\<close>

partial_function (option) hash_layer_blocks ::
  "nca_env \<Rightarrow> bool \<Rightarrow> bytes \<Rightarrow> u64 \<Rightarrow> u64 \<Rightarrow> u64 \<Rightarrow> u64 \<Rightarrow> bytes \<Rightarrow> bytes option" where
  "hash_layer_blocks env is_integrity_patch cur_layer_block cur_layer_read_size j k hbs
     parent_layer_block =
     (if j < cur_layer_read_size
      then
        hash_layer_blocks env is_integrity_patch cur_layer_block cur_layer_read_size
          (j + (if \<not> is_integrity_patch \<and> hbs > cur_layer_read_size - j
                then cur_layer_read_size - j else hbs))
          (k + 1)
          (if \<not> is_integrity_patch \<and> hbs > cur_layer_read_size - j
           then cur_layer_read_size - j else hbs)
          (memcpy_at parent_layer_block (unat (k * 0x20))
             (sha256CalculateHash env
                (take (unat (if \<not> is_integrity_patch \<and> hbs > cur_layer_read_size - j
                             then cur_layer_read_size - j else hbs))
                   (drop (unat j) cur_layer_block)))
             0 SHA256_HASH_SIZE)
      else Some parent_layer_block)"

text \<open>The master hash stored into the section header (lines 1167-1168).\<close>

definition write_master_hash :: "nca_env \<Rightarrow> bool \<Rightarrow> bytes \<Rightarrow> NcaContext \<Rightarrow> nat \<Rightarrow> NcaContext" where
  "write_master_hash env is_integrity_patch h nca idx =
     (let ctx = fs_ctx nca ! idx;
          fh = NcaFsHeader_view env (fs_header ctx);
          fh' = (if \<not> is_integrity_patch
                 then fh\<lparr>hierarchical_sha256_data :=
                          (hierarchical_sha256_data fh)\<lparr>sha256_master_hash := h\<rparr>\<rparr>
                 else fh\<lparr>integrity_meta_info :=
                          (integrity_meta_info fh)\<lparr>integrity_master_hash := h\<rparr>\<rparr>)
      in nca\<lparr>fs_ctx := (fs_ctx nca)
               [idx := ctx\<lparr>fs_header := NcaFsHeader_store env fh' (fs_header ctx)\<rparr>]\<rparr>)"

text \<open>The re-encryption of a layer block into its patch entry (lines 1172-1178).\<close>

definition encrypt_layer ::
  "nca_env \<Rightarrow> NcaContext \<Rightarrow> nat \<Rightarrow> nat \<Rightarrow> NcaHashDataPatch list \<Rightarrow> bytes \<Rightarrow> u64 \<Rightarrow> u64
   \<Rightarrow> NcaContext + NcaContext \<times> NcaHashDataPatch list" where
  "encrypt_layer env nca idx i entries plain n off =
     (case u_ncaGenerateEncryptedFsSectionBlock env nca idx (Some plain) n off of
        (None, nca') \<Rightarrow> Inl nca'
      | (Some (block, block_size, block_offset), nca') \<Rightarrow>
          Inr (nca',
               entries[i - 1 := (entries ! (i - 1))\<lparr>patch_data := Some block,
                                  patch_size := block_size, patch_offset := block_offset\<rparr>]))"

text \<open>
  One pass of the layer loop (lines 1050-1195), for layer i (counted from 1 as in the
  source). The result is \<open>None\<close> when the hash loop does not return, \<open>Inl\<close> for a
  \<^verbatim>\<open>goto end\<close> with \<open>success\<close> false, and \<open>Inr\<close> with the state the next pass
  starts from.
\<close>

definition generate_layer ::
  "nca_env \<Rightarrow> bool \<Rightarrow> nat \<Rightarrow> NcaContext \<Rightarrow> nat \<Rightarrow> NcaHashDataPatch list \<Rightarrow> bytes \<Rightarrow> u64 \<Rightarrow> u64
   \<Rightarrow> (NcaContext + NcaContext \<times> NcaHashDataPatch list \<times> bytes \<times> u64 \<times> u64) option" where
  "generate_layer env is_integrity_patch i nca idx entries cur_data cur_data_offset cur_data_size =
     (let ctx = fs_ctx nca ! idx;
          fh = NcaFsHeader_view env (fs_header ctx);
          hbs = layer_hash_block_size fh is_integrity_patch i;
          cur_layer_offset = layer_offset fh is_integrity_patch (i - 1);
          cur_layer_size = layer_size fh is_integrity_patch (i - 1);
          parent_layer_offset = (if i > 1 then layer_offset fh is_integrity_patch (i - 2) else 0);
          parent_layer_size = (if i > 1 then layer_size fh is_integrity_patch (i - 2) else 0)
      in if hbs \<le> 1 \<or> cur_layer_size = 0 \<or> cur_layer_offset + cur_layer_size > section_size ctx
            \<or> (i > 1 \<and> (parent_layer_size = 0
                          \<or> parent_layer_offset + parent_layer_size > section_size ctx))
         then Some (Inl nca)
         else
           let read_start = (if i > 1 then cur_layer_offset + ALIGN_DOWN cur_data_offset hbs
                             else cur_layer_offset);
               read_end = (if i > 1 then cur_layer_offset + ALIGN_UP (cur_data_offset + cur_data_size) hbs
                           else cur_layer_offset + cur_layer_size);
               alloc_size = (if i > 1 then read_end - read_start else cur_layer_size);
               parent_read_start = (if i > 1 then (cur_data_offset div hbs) * 0x20 else 0);
               parent_read_size = (if i > 1 then (alloc_size div hbs) * 0x20 else 0);
               patch_off = cur_data_offset - ALIGN_DOWN cur_data_offset hbs
           in if \<not> alloc_ok env alloc_size then Some (Inl nca)
              else
                let read_size = (if read_end > cur_layer_offset + cur_layer_size
                                 then cur_layer_offset + cur_layer_size - read_start
                                 else alloc_size)
                in (case u_ncaReadFsSection env nca idx (replicate (unat alloc_size) 0) read_size
                           read_start of
                      (rd, block, nca1) \<Rightarrow>
                        if \<not> rd then Some (Inl nca1)
                        else
                          let block' = memcpy_at block (unat patch_off) cur_data 0 (unat cur_data_size)
                          in if i > 1
                             then
                               (if \<not> alloc_ok env parent_read_size then Some (Inl nca1)
                                else
                                  (case u_ncaReadFsSection env nca1 idx
                                          (replicate (unat parent_read_size) 0) parent_read_size
                                          (parent_layer_offset + parent_read_start) of
                                     (prd, parent, nca2) \<Rightarrow>
                                       if \<not> prd then Some (Inl nca2)
                                       else
                                         (case hash_layer_blocks env is_integrity_patch block'
                                                 read_size 0 0 hbs parent of
                                            None \<Rightarrow> None
                                          | Some parent' \<Rightarrow>
                                              (case encrypt_layer env nca2 idx i entries
                                                      (drop (unat patch_off) block') cur_data_size
                                                      (cur_layer_offset + cur_data_offset) of
                                                 Inl nca3 \<Rightarrow> Some (Inl nca3)
                                               | Inr (nca3, entries') \<Rightarrow>
                                                   Some (Inr (nca3, entries', parent',
                                                              parent_read_start, parent_read_size))))))
                             else
                               (case encrypt_layer env
                                       (write_master_hash env is_integrity_patch
                                          (sha256CalculateHash env (take (unat read_size) block'))
                                          nca1 idx)
                                       idx i entries (drop (unat patch_off) block') cur_data_size
                                       (cur_layer_offset + cur_data_offset) of
                                  Inl nca3 \<Rightarrow> Some (Inl nca3)
                                | Inr (nca3, entries') \<Rightarrow>
                                    Some (Inr (nca3, entries', cur_data, cur_data_offset,
                                               cur_data_size)))))"

text \<open>The layer loop, from layer \<open>layer_count\<close> down to layer 1.\<close>

fun generate_layers ::
  "nca_env \<Rightarrow> bool \<Rightarrow> nat \<Rightarrow> NcaContext \<Rightarrow> nat \<Rightarrow> NcaHashDataPatch list \<Rightarrow> bytes \<Rightarrow> u64 \<Rightarrow> u64
   \<Rightarrow> (NcaContext + NcaContext \<times> NcaHashDataPatch list) option" where
  "generate_layers env is_integrity_patch 0 nca idx entries cur_data cur_data_offset cur_data_size =
     Some (Inr (nca, entries))"
| "generate_layers env is_integrity_patch (Suc n) nca idx entries cur_data cur_data_offset
     cur_data_size =
     (case generate_layer env is_integrity_patch (Suc n) nca idx entries cur_data cur_data_offset
             cur_data_size of
        None \<Rightarrow> None
      | Some (Inl nca') \<Rightarrow> Some (Inl nca')
      | Some (Inr (nca', entries', cur_data', cur_data_offset', cur_data_size')) \<Rightarrow>
          generate_layers env is_integrity_patch n nca' idx entries' cur_data' cur_data_offset'
            cur_data_size')"

text \<open>The layer count and the size of the last layer, as the parameter check reads them.\<close>

definition patch_layer_count :: "NcaFsHeader \<Rightarrow> bool \<Rightarrow> u32" where
  "patch_layer_count fh is_integrity_patch =
     (if \<not> is_integrity_patch then hash_region_count (hierarchical_sha256_data fh)
      else max_level_count (integrity_meta_info fh) - 1)"

definition patch_last_layer_size :: "NcaFsHeader \<Rightarrow> bool \<Rightarrow> u64" where
  "patch_last_layer_size fh is_integrity_patch =
     (if \<not> is_integrity_patch
      then region_size (hash_region (hierarchical_sha256_data fh)
                          ! unat (hash_region_count (hierarchical_sha256_data fh) - 1))
      else level_size (level_information (integrity_meta_info fh) ! unat (NCA_IVFC_LEVEL_COUNT - 1)))"

text \<open>
  \<^verbatim>\<open>ncaGenerateHashDataPatch\<close> (lines 1013-1224). The output pointer is tested and the
  structure behind it overwritten, so the result carries the patch the caller sees: cleared
  whenever the function fails and the pointer is not \<^verbatim>\<open>NULL\<close>.
\<close>

definition ncaGenerateHashDataPatch ::
  "nca_env \<Rightarrow> NcaContext \<Rightarrow> nat \<Rightarrow> bytes option \<Rightarrow> u64 \<Rightarrow> u64 \<Rightarrow> patch_out option \<Rightarrow> bool
   \<Rightarrow> (bool \<times> patch_out option \<times> NcaContext) option" where
  "ncaGenerateHashDataPatch env nca idx data data_size data_offset out is_integrity_patch =
     (if idx \<ge> length (fs_ctx nca)
      then Some (False, map_option (\<lambda>p. free_patch_out is_integrity_patch) out, nca)
      else
        let ctx = fs_ctx nca ! idx;
            fh = NcaFsHeader_view env (fs_header ctx);
            layer_count = patch_layer_count fh is_integrity_patch;
            last_layer_size = patch_last_layer_size fh is_integrity_patch
        in if \<not> enabled ctx \<or> has_sparse_layer ctx \<or> \<not> nca_ctx ctx
              \<or> (\<not> is_integrity_patch
                  \<and> (hash_type fh \<noteq> NcaHashType_HierarchicalSha256
                       \<or> hash_block_size (hierarchical_sha256_data fh) = 0 \<or> layer_count = 0
                       \<or> layer_count > NCA_HIERARCHICAL_SHA256_MAX_REGION_COUNT
                       \<or> last_layer_size = 0))
              \<or> (is_integrity_patch
                  \<and> (hash_type fh \<noteq> NcaHashType_HierarchicalIntegrity \<or> layer_count = 0
                       \<or> layer_count \<noteq> NCA_IVFC_LEVEL_COUNT \<or> last_layer_size = 0))
              \<or> data = None \<or> data_size = 0 \<or> data_offset + data_size > last_layer_size
              \<or> out = None
           then Some (False, map_option (\<lambda>p. free_patch_out is_integrity_patch) out, nca)
           else
             (case generate_layers env is_integrity_patch (unat layer_count) nca idx
                     (replicate (if is_integrity_patch then 6 else 5) NcaHashDataPatch_zero)
                     (the data) data_offset data_size of
                None \<Rightarrow> None
              | Some (Inl nca') \<Rightarrow> Some (False, Some (free_patch_out is_integrity_patch), nca')
              | Some (Inr (nca', entries)) \<Rightarrow>
                  let h = NcaHeader_view env (header nca');
                      fs_hash = sha256CalculateHash env
                                  (take (unat sizeof_NcaFsHeader) (fs_header (fs_ctx nca' ! idx)));
                      nca'' = nca'\<lparr>header := NcaHeader_store env
                                 (h\<lparr>fs_header_hash := (fs_header_hash h)
                                       [unat (section_num (fs_ctx nca' ! idx)) := fs_hash]\<rparr>)
                                 (header nca')\<rparr>
                  in Some (True,
                           Some (if is_integrity_patch
                                 then IntegrityPatch
                                        \<lparr>integrity_patch_written = False,
                                         integrity_patch_content_id = take 0x10 (content_id nca''),
                                         hash_level_patch = entries\<rparr>
                                 else Sha256Patch
                                        \<lparr>sha256_patch_written = False,
                                         sha256_patch_content_id = take 0x10 (content_id nca''),
                                         hash_region_patch_count = layer_count,
                                         hash_region_patch = entries\<rparr>),
                           nca'')))"

section \<open>The merge in natural numbers\<close>

text \<open>
  With both ranges free of 64-bit wrap-around, the merge is the overlay the specification
  describes, guarded by the entry being non-empty and inside the declared content size.
  \<open>s\<close> is the first patch byte used, \<open>d\<close> the first buffer byte written, \<open>n\<close> the
  number of bytes copied (natural-number subtraction stops at 0, which is the
  specification's \<open>max(0, _)\<close>).
\<close>

lemma ncaWritePatchToMemoryBuffer_nat:
  fixes p_size p_offset buf_size buf_offset :: u64
  assumes nw1: "unat p_offset + unat p_size < 2 ^ 64"
      and nw2: "unat buf_offset + unat buf_size < 2 ^ 64"
  shows "ncaWritePatchToMemoryBuffer (Some c) (Some p) p_size p_offset buf buf_size buf_offset =
     (let PO = unat p_offset; PS = unat p_size; BO = unat buf_offset; BS = unat buf_size;
          s = BO - PO; d = PO - BO; n = min (PS - s) (BS - d)
      in if PS = 0 \<or> unat (content_size c) < PO + PS \<or> BO + BS \<le> PO \<or> PO + PS \<le> BO
         then (False, buf)
         else (s + n = PS, memcpy_at buf d p s n))"
proof -
  define PO PS BO BS where "PO = unat p_offset" and "PS = unat p_size"
    and "BO = unat buf_offset" and "BS = unat buf_size"
  note nats = PO_def PS_def BO_def BS_def
  have a1: "unat (p_offset + p_size) = PO + PS"
    using nw1 unfolding nats by (rule u64_add_no_wrap)
  have a2: "unat (buf_offset + buf_size) = BO + BS"
    using nw2 unfolding nats by (rule u64_add_no_wrap)
  have guard: "(p_size = 0 \<or> p_offset + p_size > content_size c
                 \<or> buf_offset + buf_size \<le> p_offset \<or> p_offset + p_size \<le> buf_offset)
               = (PS = 0 \<or> unat (content_size c) < PO + PS \<or> BO + BS \<le> PO \<or> PO + PS \<le> BO)"
    using a1 a2 by (auto simp add: word_le_nat_alt word_less_nat_alt unat_eq_0 nats)
  show ?thesis
  proof (cases "PS = 0 \<or> unat (content_size c) < PO + PS \<or> BO + BS \<le> PO \<or> PO + PS \<le> BO")
    case True
    then show ?thesis
      using guard by (simp add: ncaWritePatchToMemoryBuffer_def Let_def flip: nats)
  next
    case False
    define pbo where "pbo = (if p_offset < buf_offset then buf_offset - p_offset else 0)"
    define bbo where "bbo = (if buf_offset < p_offset then p_offset - buf_offset else 0)"
    define bbs where
      "bbs = (if buf_size - bbo < p_size - pbo then buf_size - bbo else p_size - pbo)"
    have pbo: "unat pbo = BO - PO"
      by (simp add: pbo_def word_less_nat_alt u64_sub_le nats)
    have bbo: "unat bbo = PO - BO"
      by (simp add: bbo_def word_less_nat_alt u64_sub_le nats)
    have "unat pbo \<le> unat p_size"
      using False pbo unfolding nats by linarith
    then have prs: "unat (p_size - pbo) = PS - (BO - PO)"
      using pbo by (simp add: u64_sub_le PS_def)
    have "unat bbo \<le> unat buf_size"
      using False bbo unfolding nats by linarith
    then have brs: "unat (buf_size - bbo) = BS - (PO - BO)"
      using bbo by (simp add: u64_sub_le BS_def)
    have bbs: "unat bbs = min (PS - (BO - PO)) (BS - (PO - BO))"
      using prs brs by (simp add: bbs_def word_less_nat_alt min_def)
    have "BO - PO + min (PS - (BO - PO)) (BS - (PO - BO)) \<le> PS"
      using False by arith
    then have sum: "unat (pbo + bbs) = BO - PO + min (PS - (BO - PO)) (BS - (PO - BO))"
      using pbo bbs nw1 by (simp add: u64_add_no_wrap nats)
    have flag: "(pbo + bbs = p_size) = (BO - PO + min (PS - (BO - PO)) (BS - (PO - BO)) = PS)"
      by (simp add: u64_eq_unat [of "pbo + bbs"] sum PS_def)
    have "ncaWritePatchToMemoryBuffer (Some c) (Some p) p_size p_offset buf buf_size buf_offset
          = (pbo + bbs = p_size, memcpy_at buf (unat bbo) p (unat pbo) (unat bbs))"
      using guard False
      by (simp add: ncaWritePatchToMemoryBuffer_def Let_def pbo_def bbo_def bbs_def)
    then show ?thesis
      using False by (simp add: flag pbo bbo bbs Let_def flip: nats)
  qed
qed

lemma memcpy_at_length:
  assumes "d + n \<le> length dst" and "s + n \<le> length src"
  shows "length (memcpy_at dst d src s n) = length dst"
  using assms by (simp add: memcpy_at_def)

lemma memcpy_at_nth:
  assumes "d + n \<le> length dst" and "s + n \<le> length src" and "k < length dst"
  shows "memcpy_at dst d src s n ! k = (if d \<le> k \<and> k < d + n then src ! (s + (k - d)) else dst ! k)"
proof -
  define A B C where "A = take d dst" and "B = take n (drop s src)" and "C = drop (d + n) dst"
  have m: "memcpy_at dst d src s n = A @ B @ C"
    by (simp add: memcpy_at_def A_def B_def C_def)
  have lA: "length A = d" and lB: "length B = n"
    using assms by (simp_all add: A_def B_def)
  consider "k < d" | "d \<le> k" "k < d + n" | "d + n \<le> k"
    by linarith
  then show ?thesis
  proof cases
    case 1
    then have "(A @ B @ C) ! k = A ! k"
      using lA by (simp add: nth_append)
    then show ?thesis
      using 1 m by (simp add: A_def)
  next
    case 2
    then have "(A @ B @ C) ! k = B ! (k - d)"
      using lA lB by (auto simp add: nth_append)
    moreover have "B ! (k - d) = src ! (s + (k - d))"
      using 2 assms by (simp add: B_def)
    ultimately show ?thesis
      using 2 m by simp
  next
    case 3
    then have "(A @ B @ C) ! k = C ! (k - d - n)"
      using lA lB by (auto simp add: nth_append)
    moreover have "C ! (k - d - n) = dst ! k"
      using 3 assms by (simp add: C_def)
    ultimately show ?thesis
      using 3 m by simp
  qed
qed

lemma ncaWritePatchToMemoryBuffer_pointwise:
  fixes p_size p_offset buf_size buf_offset :: u64 and c :: NcaContext and p buf :: bytes
  assumes nw1: "unat p_offset + unat p_size < 2 ^ 64"
      and nw2: "unat buf_offset + unat buf_size < 2 ^ 64"
      and lp: "length p = unat p_size"
      and lb: "length buf = unat buf_size"
  defines "r \<equiv> ncaWritePatchToMemoryBuffer (Some c) (Some p) p_size p_offset buf buf_size buf_offset"
  shows "length (snd r) = length buf"
    and "k < length buf \<Longrightarrow> snd r ! k =
           (if patch_applies c p_size p_offset buf_size buf_offset
               \<and> unat p_offset \<le> unat buf_offset + k \<and> unat buf_offset + k < unat p_offset + unat p_size
            then p ! (unat buf_offset + k - unat p_offset) else buf ! k)"
    and "fst r = (patch_applies c p_size p_offset buf_size buf_offset
                  \<and> unat p_offset + unat p_size \<le> unat buf_offset + unat buf_size)"
proof -
  define PO PS BO BS where "PO = unat p_offset" and "PS = unat p_size"
    and "BO = unat buf_offset" and "BS = unat buf_size"
  note nats = PO_def PS_def BO_def BS_def
  define s d n where "s = BO - PO" and "d = PO - BO" and "n = min (PS - s) (BS - d)"
  note sdn = s_def d_def n_def
  have r: "r = (if PS = 0 \<or> unat (content_size c) < PO + PS \<or> BO + BS \<le> PO \<or> PO + PS \<le> BO
                then (False, buf) else (s + n = PS, memcpy_at buf d p s n))"
    unfolding r_def sdn nats
    using ncaWritePatchToMemoryBuffer_nat [OF nw1 nw2, of c p buf] by (simp add: Let_def)
  have ap: "patch_applies c p_size p_offset buf_size buf_offset
            = (\<not> (PS = 0 \<or> unat (content_size c) < PO + PS \<or> BO + BS \<le> PO \<or> PO + PS \<le> BO))"
    unfolding patch_applies_def nats by auto
  have in_dst: "d + n \<le> length buf" and in_src: "s + n \<le> length p"
    if "patch_applies c p_size p_offset buf_size buf_offset"
    using that unfolding ap sdn lb lp nats by auto
  show "length (snd r) = length buf"
    using r memcpy_at_length [OF in_dst in_src] ap by auto
  show "fst r = (patch_applies c p_size p_offset buf_size buf_offset
                  \<and> unat p_offset + unat p_size \<le> unat buf_offset + unat buf_size)"
    unfolding ap r unfolding sdn nats by auto
  show "snd r ! k =
           (if patch_applies c p_size p_offset buf_size buf_offset
               \<and> unat p_offset \<le> unat buf_offset + k \<and> unat buf_offset + k < unat p_offset + unat p_size
            then p ! (unat buf_offset + k - unat p_offset) else buf ! k)" if k: "k < length buf"
  proof (cases "patch_applies c p_size p_offset buf_size buf_offset")
    case False
    then show ?thesis using r ap by simp
  next
    case True
    then have "snd r = memcpy_at buf d p s n"
      using r ap by simp
    then have "snd r ! k = (if d \<le> k \<and> k < d + n then p ! (s + (k - d)) else buf ! k)"
      using memcpy_at_nth [OF in_dst [OF True] in_src [OF True] k] by simp
    moreover have "(d \<le> k \<and> k < d + n) = (PO \<le> BO + k \<and> BO + k < PO + PS)"
      using k True unfolding ap sdn lb nats by auto
    moreover have "PO \<le> BO + k \<Longrightarrow> s + (k - d) = BO + k - PO"
      unfolding sdn by auto
    ultimately show ?thesis
      using True by (auto simp add: nats)
  qed
qed

text \<open>
  C4, as amended. For a patch entry and a buffer range that do not wrap around 64 bits:
  when the two ranges do not overlap the merge returns not-fully-applied and leaves the
  buffer unchanged; an entry that is empty or reaches past the declared content size is
  refused the same way, overlapping or not; otherwise the merge copies
  \<open>n = min(remaining_patch, remaining_buf)\<close> bytes from \<open>ciphertext[max(0, buf_offset - abs_offset)..]\<close>
  onto \<open>buf[max(0, abs_offset - buf_offset)..]\<close> and returns fully-applied exactly when
  the copied range reaches the last byte of the patch.
\<close>

theorem ncaWritePatchToMemoryBuffer_merge:
  fixes p_size p_offset buf_size buf_offset :: u64
  assumes "unat p_offset + unat p_size < 2 ^ 64"
      and "unat buf_offset + unat buf_size < 2 ^ 64"
  shows "let PO = unat p_offset; PS = unat p_size; BO = unat buf_offset; BS = unat buf_size;
             s = BO - PO; d = PO - BO; n = min (PS - s) (BS - d);
             r = ncaWritePatchToMemoryBuffer (Some c) (Some p) p_size p_offset buf buf_size buf_offset
         in (BO + BS \<le> PO \<or> PO + PS \<le> BO \<longrightarrow> r = (False, buf))
            \<and> (PS = 0 \<or> unat (content_size c) < PO + PS \<longrightarrow> r = (False, buf))
            \<and> (patch_applies c p_size p_offset buf_size buf_offset
                 \<longrightarrow> r = (s + n = PS, memcpy_at buf d p s n))"
  using ncaWritePatchToMemoryBuffer_nat [OF assms, of c p buf]
  by (auto simp add: Let_def patch_applies_def)

theorem ncaWritePatchToMemoryBuffer_merge_witness:
  "ncaWritePatchToMemoryBuffer (Some (NcaContext_zero\<lparr>content_size := 0xC00\<rparr>))
     (Some [1, 2, 3, 4]) 4 0xBFA [9, 9, 9, 9] 4 0xBFC = (True, [3, 4, 9, 9])
   \<and> ncaWritePatchToMemoryBuffer (Some (NcaContext_zero\<lparr>content_size := 0xC00\<rparr>))
     (Some [1, 2, 3, 4]) 4 0xBF0 [9, 9, 9, 9] 4 0xBFC = (False, [9, 9, 9, 9])"
  using ncaWritePatchToMemoryBuffer_merge
          [of "0xBFA" 4 "0xBFC" 4 "NcaContext_zero\<lparr>content_size := 0xC00\<rparr>"
              "[1, 2, 3, 4]" "[9, 9, 9, 9]"]
        ncaWritePatchToMemoryBuffer_merge
          [of "0xBF0" 4 "0xBFC" 4 "NcaContext_zero\<lparr>content_size := 0xC00\<rparr>"
              "[1, 2, 3, 4]" "[9, 9, 9, 9]"]
  by (simp add: Let_def patch_applies_def memcpy_at_def)

text \<open>
  The claim as stated fails for an entry that reaches past the declared content size: the
  entry at [0xBFE, 0xC02) overlaps the buffer range [0xBFC, 0xC00) in two bytes, the
  overlay of the claim would give 9, 9, 1, 2, and the merge leaves the buffer as it was.
\<close>

theorem ncaWritePatchToMemoryBuffer_merge_counterexample:
  "snd (ncaWritePatchToMemoryBuffer (Some (NcaContext_zero\<lparr>content_size := 0xC00\<rparr>))
          (Some [1, 2, 3, 4]) 4 0xBFE [9, 9, 9, 9] 4 0xBFC) = [9, 9, 9, 9]
   \<and> memcpy_at [9, 9, 9, 9] (0xBFE - 0xBFC) [1, 2, 3, 4] (0xBFC - 0xBFE) (min (4 - 0) (4 - 2))
       = [9, 9, 1, 2]"
  by (simp add: ncaWritePatchToMemoryBuffer_def memcpy_at_def)

section \<open>Applying a patch set twice\<close>




lemma entry_write_length:
  assumes "patch_entry_wf e" and "unat buf_offset + unat buf_size < 2 ^ 64"
      and "length buf = unat buf_size"
  shows "length (entry_write c buf_size buf_offset e buf) = length buf"
proof (cases "patch_data e")
  case None
  then show ?thesis
    by (simp add: entry_write_def ncaWritePatchToMemoryBuffer_def)
next
  case (Some d)
  then show ?thesis
    using assms ncaWritePatchToMemoryBuffer_pointwise(1)
            [of "patch_offset e" "patch_size e" buf_offset buf_size d buf c]
    by (simp add: entry_write_def patch_entry_wf_def)
qed





lemma fold_entry_write_length:
  assumes "list_all patch_entry_wf es" and "unat buf_offset + unat buf_size < 2 ^ 64"
      and "length buf = unat buf_size"
  shows "length (fold (entry_write c buf_size buf_offset) es buf) = unat buf_size"
  using assms by (induction es arbitrary: buf) (simp_all add: entry_write_length)













section \<open>Reading and re-encrypting the headers\<close>


lemma ncaReadContentFile_fs_ctx [simp]:
  "ncaReadContentFile env (ctx\<lparr>fs_ctx := x\<rparr>) n off = ncaReadContentFile env ctx n off"
  by (simp add: ncaReadContentFile_def)

lemma read_fs_headers_frame:
  assumes "read_fs_headers env a b is ctx = (ok, ctx')"
  shows "ctx' = ctx\<lparr>fs_ctx := fs_ctx ctx'\<rparr> \<and> length (fs_ctx ctx') = length (fs_ctx ctx)"
  using assms
proof (induction "is" arbitrary: ctx)
  case Nil
  then show ?case by simp
next
  case (Cons i "is")
  show ?case
  proof (cases "ncaIsFsInfoEntryValid (fs_info (NcaHeader_view env (header ctx)) ! i)")
    case False
    then show ?thesis
      using Cons.prems Cons.IH [of ctx] by simp
  next
    case True
    show ?thesis
    proof (cases "ncaReadContentFile env ctx sizeof_NcaFsHeader
                   (fs_header_offset (format_version ctx) i
                      (start_sector (fs_info (NcaHeader_view env (header ctx)) ! i)))")
      case None
      then show ?thesis
        using True Cons.prems by simp
    next
      case (Some enc)
      define res where "res = aes128XtsNintendoCrypt env
              (if format_version ctx \<noteq> NcaVersion_Nca0 then a else b) enc sizeof_NcaFsHeader
              (fs_header_sector (format_version ctx) i
                 (start_sector (fs_info (NcaHeader_view env (header ctx)) ! i)))
              NCA_AES_XTS_SECTOR_SIZE False"
      define ctx1 where "ctx1 = ctx\<lparr>fs_ctx := (fs_ctx ctx)
                             [i := (fs_ctx ctx ! i)\<lparr>fs_encrypted_header := enc,
                                                     fs_header := snd res\<rparr>]\<rparr>"
      have step: "read_fs_headers env a b (i # is) ctx =
                  (if fst res \<noteq> sizeof_NcaFsHeader then (False, ctx1)
                   else read_fs_headers env a b is ctx1)"
        using True Some by (simp add: Let_def res_def ctx1_def)
      show ?thesis
      proof (cases "fst res \<noteq> sizeof_NcaFsHeader")
        case True
        then show ?thesis
          using step Cons.prems by (auto simp add: ctx1_def)
      next
        case False
        then have "read_fs_headers env a b is ctx1 = (ok, ctx')"
          using step Cons.prems by simp
        from Cons.IH [OF this] show ?thesis
          by (simp add: ctx1_def)
      qed
    qed
  qed
qed

lemma read_fs_headers_step:
  "read_fs_headers env a b (i # is) ctx =
     (if \<not> fs_slot_populated env ctx i then read_fs_headers env a b is ctx
      else case ncaReadContentFile env ctx sizeof_NcaFsHeader (fs_slot_offset env ctx i) of
             None \<Rightarrow> (False, ctx)
           | Some enc \<Rightarrow>
               let res = aes128XtsNintendoCrypt env
                           (if format_version ctx \<noteq> NcaVersion_Nca0 then a else b) enc
                           sizeof_NcaFsHeader (fs_slot_sector env ctx i) NCA_AES_XTS_SECTOR_SIZE False;
                   ctx' = ctx\<lparr>fs_ctx := (fs_ctx ctx)
                            [i := (fs_ctx ctx ! i)\<lparr>fs_encrypted_header := enc,
                                                    fs_header := snd res\<rparr>]\<rparr>
               in if fst res \<noteq> sizeof_NcaFsHeader then (False, ctx')
                  else read_fs_headers env a b is ctx')"
  by (simp add: fs_slot_populated_def fs_slot_offset_def fs_slot_sector_def Let_def
        split: option.splits)


lemma ncaDecryptKeyArea_frame:
  "snd (ncaDecryptKeyArea env c) = c\<lparr>decrypted_key_area := decrypted_key_area (snd (ncaDecryptKeyArea env c))\<rparr>"
  by (simp add: ncaDecryptKeyArea_def Let_def case_prod_unfold)



lemma encrypt_fs_headers_step:
  "encrypt_fs_headers env a b (i # is) ctx =
     (if \<not> fs_slot_populated env ctx i then encrypt_fs_headers env a b is ctx
      else
        let res = aes128XtsNintendoCrypt env
                    (if format_version ctx \<noteq> NcaVersion_Nca0 then a else b)
                    (fs_header (fs_ctx ctx ! i)) sizeof_NcaFsHeader (fs_slot_sector env ctx i)
                    NCA_AES_XTS_SECTOR_SIZE True;
            ctx' = ctx\<lparr>fs_ctx := (fs_ctx ctx)
                     [i := (fs_ctx ctx ! i)\<lparr>fs_encrypted_header := snd res\<rparr>]\<rparr>
        in if fst res \<noteq> sizeof_NcaFsHeader then (False, ctx')
           else encrypt_fs_headers env a b is ctx')"
  by (simp add: fs_slot_populated_def fs_slot_sector_def Let_def)


lemma encrypt_fs_headers_slots:
  assumes "encrypt_fs_headers env a b is ctx = (True, ctx')"
      and "distinct is" and "\<forall>i\<in>set is. i < length (fs_ctx ctx)"
  shows "ctx' = ctx\<lparr>fs_ctx := fs_ctx ctx'\<rparr>
         \<and> (i \<in> set is \<and> fs_slot_populated env ctx i \<longrightarrow>
              fs_header (fs_ctx ctx' ! i) = fs_header (fs_ctx ctx ! i)
              \<and> aes128XtsNintendoCrypt env (if format_version ctx \<noteq> NcaVersion_Nca0 then a else b)
                  (fs_header (fs_ctx ctx' ! i)) sizeof_NcaFsHeader (fs_slot_sector env ctx i)
                  NCA_AES_XTS_SECTOR_SIZE True
                = (sizeof_NcaFsHeader, fs_encrypted_header (fs_ctx ctx' ! i)))
         \<and> (\<not> (i \<in> set is \<and> fs_slot_populated env ctx i) \<longrightarrow> fs_ctx ctx' ! i = fs_ctx ctx ! i)"
  using assms
proof (induction "is" arbitrary: ctx)
  case Nil
  then show ?case by simp
next
  case (Cons j js)
  show ?case
  proof (cases "fs_slot_populated env ctx j")
    case False
    then have "encrypt_fs_headers env a b js ctx = (True, ctx')"
      using Cons.prems(1) by (simp add: encrypt_fs_headers_step del: encrypt_fs_headers.simps)
    from Cons.IH [OF this] Cons.prems False show ?thesis
      by auto
  next
    case True
    define res where "res = aes128XtsNintendoCrypt env
                    (if format_version ctx \<noteq> NcaVersion_Nca0 then a else b)
                    (fs_header (fs_ctx ctx ! j)) sizeof_NcaFsHeader (fs_slot_sector env ctx j)
                    NCA_AES_XTS_SECTOR_SIZE True"
    define ctx1 where "ctx1 = ctx\<lparr>fs_ctx := (fs_ctx ctx)
                     [j := (fs_ctx ctx ! j)\<lparr>fs_encrypted_header := snd res\<rparr>]\<rparr>"
    have ok: "fst res = sizeof_NcaFsHeader" and rest: "encrypt_fs_headers env a b js ctx1 = (True, ctx')"
      using Cons.prems(1) True
      by (auto simp add: encrypt_fs_headers_step Let_def res_def ctx1_def
               simp del: encrypt_fs_headers.simps split: if_splits)
    have same: "fs_slot_populated env ctx1 k = fs_slot_populated env ctx k"
               "fs_slot_sector env ctx1 k = fs_slot_sector env ctx k"
               "format_version ctx1 = format_version ctx" for k
      by (simp_all add: ctx1_def fs_slot_populated_def fs_slot_sector_def)
    have len: "\<forall>i\<in>set js. i < length (fs_ctx ctx1)"
      using Cons.prems(3) by (simp add: ctx1_def)
    have dj: "distinct js" and jn: "j \<notin> set js" and jl: "j < length (fs_ctx ctx)"
      using Cons.prems by simp_all
    note IH = Cons.IH [OF rest dj len, unfolded same]
    have atj: "fs_ctx ctx1 ! j = (fs_ctx ctx ! j)\<lparr>fs_encrypted_header := snd res\<rparr>"
      using jl by (simp add: ctx1_def)
    have others: "k \<noteq> j \<Longrightarrow> fs_ctx ctx1 ! k = fs_ctx ctx ! k" for k
      by (simp add: ctx1_def)
    have frame: "ctx' = ctx\<lparr>fs_ctx := fs_ctx ctx'\<rparr>"
      using IH by (simp add: ctx1_def)
    show ?thesis
    proof (cases "i = j")
      case True
      then have "fs_ctx ctx' ! i = fs_ctx ctx1 ! j"
        using IH jn by simp
      then show ?thesis
        using True atj ok frame \<open>fs_slot_populated env ctx j\<close>
        by (simp add: res_def prod_eq_iff)
    next
      case False
      then show ?thesis
        using IH others [of i] frame by auto
    qed
  qed
qed



subsection \<open>Running the example archive\<close>

lemmas example_env_defs =
  example_env_def example_xts_def example_header_def example_fs_header_def example_fs_info_def
  empty_fs_info_def example_content_info_def example_archive_def
  NcaContext_zero_def NcaFsSectionContext_zero_def Aes128CtrContext_zero_def

lemmas codec_defs =
  ncaReadDecryptedHeader_def ncaReadContentFile_def header_key_ctx_def aes128XtsContextCreate_def
  key_area_xts_ctx_def ncaGetKeyGenerationValue_def ncaCheckRightsIdAvailability_def
  ncaVerifyMainSignature_def ncaDecryptKeyArea_def ncaIsVersion0KeyAreaEncrypted_def
  ncaIsFsInfoEntryValid_def all_zero_def key_slot_def aes_xts_1_def aes_xts_2_def aes_ctr_def
  fs_header_offset_def fs_header_sector_def bswap32_def memcpy_at_def
  sizeof_NcaHeader_def sizeof_NcaFsHeader_def NCA_FULL_HEADER_LENGTH_def NCA_FS_HEADER_COUNT_def
  NCA_AES_XTS_SECTOR_SIZE_def NCA_NCA3_MAGIC_def NCA_NCA2_MAGIC_def NCA_NCA0_MAGIC_def
  AES_128_KEY_SIZE_def SHA256_HASH_SIZE_def NCA_USED_KEY_AREA_SIZE_def NCA_FS_SECTOR_OFFSET_def
  Let_def

lemma upt4: "[0..<4] = [0, 1, 2, 3]"
  by (simp add: upt_rec)








section \<open>The XTS sector law\<close>

declare u_ncaReadFsSection.simps [simp del]

lemma fs_header_sector_spec:
  assumes "i < NCA_FS_HEADER_COUNT"
  shows "fs_header_sector v i start = spec_header_sector v i start"
proof -
  have "i = 0 \<or> i = 1 \<or> i = 2 \<or> i = 3"
    using assms by (auto simp add: NCA_FS_HEADER_COUNT_def)
  then show ?thesis
    by (cases v) (auto simp add: fs_header_sector_def spec_header_sector_def)
qed

lemma fs_xts_sector_spec:
  "fs_xts_sector v offset content_offset = spec_payload_sector v offset content_offset"
  by (cases v)
     (simp_all add: fs_xts_sector_def spec_payload_sector_def sizeof_NcaHeader_def
        NCA_AES_XTS_SECTOR_SIZE_def)

lemma fs_slot_sector_spec:
  assumes "i < NCA_FS_HEADER_COUNT"
  shows "fs_slot_sector env ctx i =
           spec_header_sector (format_version ctx) i
             (start_sector (fs_info (NcaHeader_view env (header ctx)) ! i))"
  using fs_header_sector_spec [OF assms] by (simp add: fs_slot_sector_def)

lemma u_ncaReadFsSection_accepted:
  assumes acc: "fs_read_accepted env nca idx read_size offset"
  shows "u_ncaReadFsSection env nca idx out read_size offset =
     (let ctx = fs_ctx nca ! idx;
          enc = encryption_type ctx;
          content_offset = section_offset ctx + offset
      in if fs_aligned enc content_offset read_size
           then
             (case ncaReadContentFile env nca read_size content_offset of
                None \<Rightarrow> (False, out, nca)
              | Some d \<Rightarrow>
                  (case fs_decrypt_chunk env nca idx
                          (take (unat read_size) (memcpy_at out 0 d 0 (unat read_size))) read_size
                          (fs_xts_sector (format_version nca) offset content_offset)
                          content_offset of
                     (ok, dec, nca') \<Rightarrow>
                       (ok, memcpy_at (memcpy_at out 0 d 0 (unat read_size)) 0 dec 0 (unat read_size),
                        nca')))
           else
             (case ncaReadContentFile env nca (fs_chunk_size enc content_offset read_size)
                     (fs_block_start enc content_offset) of
                None \<Rightarrow> (False, out, nca)
              | Some d \<Rightarrow>
                  (case fs_decrypt_chunk env nca idx d (fs_chunk_size enc content_offset read_size)
                          (fs_xts_sector (format_version nca) offset content_offset)
                          (fs_block_start enc content_offset) of
                     (ok, dec, nca') \<Rightarrow>
                       if \<not> ok then (False, out, nca')
                       else if fs_block_size enc content_offset read_size > NCA_CRYPTO_BUFFER_SIZE
                       then
                         (case u_ncaReadFsSection env nca' idx
                                 (drop (unat (fs_out_chunk_size enc content_offset read_size))
                                    (memcpy_at out 0 dec (unat (fs_data_start enc content_offset))
                                       (unat (fs_out_chunk_size enc content_offset read_size))))
                                 (read_size - fs_out_chunk_size enc content_offset read_size)
                                 (offset + fs_out_chunk_size enc content_offset read_size) of
                            (r, rest, nca'') \<Rightarrow>
                              (r,
                               take (unat (fs_out_chunk_size enc content_offset read_size))
                                 (memcpy_at out 0 dec (unat (fs_data_start enc content_offset))
                                    (unat (fs_out_chunk_size enc content_offset read_size)))
                               @ rest,
                               nca''))
                       else
                         (True,
                          memcpy_at out 0 dec (unat (fs_data_start enc content_offset))
                            (unat (fs_out_chunk_size enc content_offset read_size)),
                          nca'))))"
proof -
  define ctx where "ctx = fs_ctx nca ! idx"
  have g1: "(\<not> g_ncaCryptoBuffer env \<or> idx \<ge> length (fs_ctx nca)) = False"
    using acc by (simp add: fs_read_accepted_def)
  have g2: "(\<not> enabled ctx \<or> \<not> nca_ctx ctx \<or> unat (section_num ctx) \<ge> NCA_FS_HEADER_COUNT
              \<or> section_offset ctx < sizeof_NcaHeader
              \<or> section_type ctx \<ge> NcaFsSectionType_Invalid
              \<or> encryption_type ctx = NcaEncryptionType_Auto
              \<or> encryption_type ctx > NcaEncryptionType_AesCtrEx
              \<or> read_size = 0 \<or> offset + read_size > section_size ctx) = False"
    using acc by (auto simp add: fs_read_accepted_def Let_def ctx_def)
  have g3: "(content_id_str nca = []
                   \<or> (storage_id nca \<noteq> NcmStorageId_GameCard \<and> \<not> ncm_storage nca)
                   \<or> (storage_id nca = NcmStorageId_GameCard \<and> gamecard_offset nca = 0)
                   \<or> section_offset ctx + offset + read_size > content_size nca) = False"
    using acc by (auto simp add: fs_read_accepted_def Let_def ctx_def)
  show ?thesis
    apply (subst u_ncaReadFsSection.simps)
    unfolding Let_def ctx_def [symmetric]
    apply (simp only: g1 g2 g3 if_False)
    done
qed

lemma u_ncaReadFsSection_xts:
  assumes acc: "fs_read_accepted env nca idx read_size offset"
      and xts: "encryption_type (fs_ctx nca ! idx) = NcaEncryptionType_AesXts"
  shows "u_ncaReadFsSection env nca idx out read_size offset =
     (let ctx = fs_ctx nca ! idx;
          content_offset = section_offset ctx + offset;
          sector = fs_xts_sector (format_version nca) offset content_offset
      in if content_offset mod NCA_AES_XTS_SECTOR_SIZE = 0 \<and> read_size mod NCA_AES_XTS_SECTOR_SIZE = 0
         then
           (case ncaReadContentFile env nca read_size content_offset of
              None \<Rightarrow> (False, out, nca)
            | Some d \<Rightarrow>
                let buf = memcpy_at out 0 d 0 (unat read_size);
                    res = aes128XtsNintendoCrypt env (xts_decrypt_ctx ctx)
                            (take (unat read_size) buf) read_size sector
                            NCA_AES_XTS_SECTOR_SIZE False
                in (fst res = read_size, memcpy_at buf 0 (snd res) 0 (unat read_size), nca))
         else
           (let block_start = ALIGN_DOWN content_offset NCA_AES_XTS_SECTOR_SIZE;
                block_size = ALIGN_UP (content_offset + read_size) NCA_AES_XTS_SECTOR_SIZE
                             - block_start;
                data_start = content_offset - block_start;
                chunk_size = (if block_size > NCA_CRYPTO_BUFFER_SIZE then NCA_CRYPTO_BUFFER_SIZE
                              else block_size);
                out_chunk_size = (if block_size > NCA_CRYPTO_BUFFER_SIZE
                                  then NCA_CRYPTO_BUFFER_SIZE - data_start else read_size)
            in case ncaReadContentFile env nca chunk_size block_start of
                 None \<Rightarrow> (False, out, nca)
               | Some d \<Rightarrow>
                   let res = aes128XtsNintendoCrypt env (xts_decrypt_ctx ctx) d chunk_size sector
                               NCA_AES_XTS_SECTOR_SIZE False;
                       buf = memcpy_at out 0 (snd res) (unat data_start) (unat out_chunk_size)
                   in if fst res \<noteq> chunk_size then (False, out, nca)
                      else if block_size > NCA_CRYPTO_BUFFER_SIZE
                      then
                        (case u_ncaReadFsSection env nca idx (drop (unat out_chunk_size) buf)
                                (read_size - out_chunk_size) (offset + out_chunk_size) of
                           (r, rest, nca') \<Rightarrow> (r, take (unat out_chunk_size) buf @ rest, nca'))
                      else (True, buf, nca)))"
proof -
  have al: "fs_aligned NcaEncryptionType_AesXts c n
            = (c mod NCA_AES_XTS_SECTOR_SIZE = 0 \<and> n mod NCA_AES_XTS_SECTOR_SIZE = 0)" for c n
    by (simp add: fs_aligned_def NcaEncryptionType_AesXts_def NcaEncryptionType_None_def
          NcaEncryptionType_AesCtr_def NcaEncryptionType_AesCtrEx_def)
  have dc: "fs_decrypt_chunk env nca idx src n s c
            = (fst (aes128XtsNintendoCrypt env (xts_decrypt_ctx (fs_ctx nca ! idx)) src n s
                      NCA_AES_XTS_SECTOR_SIZE False) = n,
               snd (aes128XtsNintendoCrypt env (xts_decrypt_ctx (fs_ctx nca ! idx)) src n s
                      NCA_AES_XTS_SECTOR_SIZE False), nca)" for src n s c
    using xts by (simp add: fs_decrypt_chunk_def Let_def)
  have un: "fs_crypt_unit NcaEncryptionType_AesXts = NCA_AES_XTS_SECTOR_SIZE"
    by (simp add: fs_crypt_unit_def)
  show ?thesis
    unfolding u_ncaReadFsSection_accepted [OF acc] Let_def xts al dc
      fs_block_start_def fs_block_size_def fs_data_start_def fs_chunk_size_def
      fs_out_chunk_size_def un
    by (simp split: option.splits)
qed

text \<open>
  Claim C1. The header loops of \<^verbatim>\<open>ncaReadDecryptedHeader\<close> and \<^verbatim>\<open>ncaEncryptHeader\<close>
  process a populated slot i with one XTS call whose sector number is the one the
  specification gives: \<open>2 + i\<close> for V3, 0 for V2, \<open>start_sector - 2\<close> for V0 (computed
  in 32 bits as in the source). A read of an XTS section that passes the parameter checks
  decrypts with the sector number \<open>(content_offset - 0x400) / 0x200\<close> for V0 and
  \<open>offset / 0x200\<close> otherwise, on the aligned path and on the unaligned path, whose tail
  call is again such a read.
\<close>

theorem xts_sector_law:
  assumes "i < NCA_FS_HEADER_COUNT"
  shows
    "read_fs_headers env a b (i # is) ctx =
       (if \<not> fs_slot_populated env ctx i then read_fs_headers env a b is ctx
        else case ncaReadContentFile env ctx sizeof_NcaFsHeader (fs_slot_offset env ctx i) of
               None \<Rightarrow> (False, ctx)
             | Some enc \<Rightarrow>
                 let res = aes128XtsNintendoCrypt env
                             (if format_version ctx \<noteq> NcaVersion_Nca0 then a else b) enc
                             sizeof_NcaFsHeader
                             (spec_header_sector (format_version ctx) i
                                (start_sector (fs_info (NcaHeader_view env (header ctx)) ! i)))
                             NCA_AES_XTS_SECTOR_SIZE False;
                     ctx' = ctx\<lparr>fs_ctx := (fs_ctx ctx)
                              [i := (fs_ctx ctx ! i)\<lparr>fs_encrypted_header := enc,
                                                      fs_header := snd res\<rparr>]\<rparr>
                 in if fst res \<noteq> sizeof_NcaFsHeader then (False, ctx')
                    else read_fs_headers env a b is ctx')
     \<and> encrypt_fs_headers env a b (i # is) ctx =
       (if \<not> fs_slot_populated env ctx i then encrypt_fs_headers env a b is ctx
        else
          let res = aes128XtsNintendoCrypt env
                      (if format_version ctx \<noteq> NcaVersion_Nca0 then a else b)
                      (fs_header (fs_ctx ctx ! i)) sizeof_NcaFsHeader
                      (spec_header_sector (format_version ctx) i
                         (start_sector (fs_info (NcaHeader_view env (header ctx)) ! i)))
                      NCA_AES_XTS_SECTOR_SIZE True;
              ctx' = ctx\<lparr>fs_ctx := (fs_ctx ctx)
                       [i := (fs_ctx ctx ! i)\<lparr>fs_encrypted_header := snd res\<rparr>]\<rparr>
          in if fst res \<noteq> sizeof_NcaFsHeader then (False, ctx')
             else encrypt_fs_headers env a b is ctx')
     \<and> (fs_read_accepted env nca idx read_size offset
          \<and> encryption_type (fs_ctx nca ! idx) = NcaEncryptionType_AesXts \<longrightarrow>
        u_ncaReadFsSection env nca idx out read_size offset =
          (let sec = fs_ctx nca ! idx;
               content_offset = section_offset sec + offset;
               sector = spec_payload_sector (format_version nca) offset content_offset
           in if content_offset mod NCA_AES_XTS_SECTOR_SIZE = 0
                 \<and> read_size mod NCA_AES_XTS_SECTOR_SIZE = 0
              then
                (case ncaReadContentFile env nca read_size content_offset of
                   None \<Rightarrow> (False, out, nca)
                 | Some d \<Rightarrow>
                     let buf = memcpy_at out 0 d 0 (unat read_size);
                         res = aes128XtsNintendoCrypt env (xts_decrypt_ctx sec)
                                 (take (unat read_size) buf) read_size sector
                                 NCA_AES_XTS_SECTOR_SIZE False
                     in (fst res = read_size, memcpy_at buf 0 (snd res) 0 (unat read_size), nca))
              else
                (let block_start = ALIGN_DOWN content_offset NCA_AES_XTS_SECTOR_SIZE;
                     block_size = ALIGN_UP (content_offset + read_size) NCA_AES_XTS_SECTOR_SIZE
                                  - block_start;
                     data_start = content_offset - block_start;
                     chunk_size = (if block_size > NCA_CRYPTO_BUFFER_SIZE
                                   then NCA_CRYPTO_BUFFER_SIZE else block_size);
                     out_chunk_size = (if block_size > NCA_CRYPTO_BUFFER_SIZE
                                       then NCA_CRYPTO_BUFFER_SIZE - data_start else read_size)
                 in case ncaReadContentFile env nca chunk_size block_start of
                      None \<Rightarrow> (False, out, nca)
                    | Some d \<Rightarrow>
                        let res = aes128XtsNintendoCrypt env (xts_decrypt_ctx sec) d chunk_size
                                    sector NCA_AES_XTS_SECTOR_SIZE False;
                            buf = memcpy_at out 0 (snd res) (unat data_start) (unat out_chunk_size)
                        in if fst res \<noteq> chunk_size then (False, out, nca)
                           else if block_size > NCA_CRYPTO_BUFFER_SIZE
                           then
                             (case u_ncaReadFsSection env nca idx (drop (unat out_chunk_size) buf)
                                     (read_size - out_chunk_size) (offset + out_chunk_size) of
                                (r, rest, nca') \<Rightarrow>
                                  (r, take (unat out_chunk_size) buf @ rest, nca'))
                           else (True, buf, nca))))"
proof (intro conjI impI)
  show "read_fs_headers env a b (i # is) ctx =
       (if \<not> fs_slot_populated env ctx i then read_fs_headers env a b is ctx
        else case ncaReadContentFile env ctx sizeof_NcaFsHeader (fs_slot_offset env ctx i) of
               None \<Rightarrow> (False, ctx)
             | Some enc \<Rightarrow>
                 let res = aes128XtsNintendoCrypt env
                             (if format_version ctx \<noteq> NcaVersion_Nca0 then a else b) enc
                             sizeof_NcaFsHeader
                             (spec_header_sector (format_version ctx) i
                                (start_sector (fs_info (NcaHeader_view env (header ctx)) ! i)))
                             NCA_AES_XTS_SECTOR_SIZE False;
                     ctx' = ctx\<lparr>fs_ctx := (fs_ctx ctx)
                              [i := (fs_ctx ctx ! i)\<lparr>fs_encrypted_header := enc,
                                                      fs_header := snd res\<rparr>]\<rparr>
                 in if fst res \<noteq> sizeof_NcaFsHeader then (False, ctx')
                    else read_fs_headers env a b is ctx')"
    unfolding read_fs_headers_step fs_slot_sector_spec [OF assms] ..
  show "encrypt_fs_headers env a b (i # is) ctx =
       (if \<not> fs_slot_populated env ctx i then encrypt_fs_headers env a b is ctx
        else
          let res = aes128XtsNintendoCrypt env
                      (if format_version ctx \<noteq> NcaVersion_Nca0 then a else b)
                      (fs_header (fs_ctx ctx ! i)) sizeof_NcaFsHeader
                      (spec_header_sector (format_version ctx) i
                         (start_sector (fs_info (NcaHeader_view env (header ctx)) ! i)))
                      NCA_AES_XTS_SECTOR_SIZE True;
              ctx' = ctx\<lparr>fs_ctx := (fs_ctx ctx)
                       [i := (fs_ctx ctx ! i)\<lparr>fs_encrypted_header := snd res\<rparr>]\<rparr>
          in if fst res \<noteq> sizeof_NcaFsHeader then (False, ctx')
             else encrypt_fs_headers env a b is ctx')"
    unfolding encrypt_fs_headers_step fs_slot_sector_spec [OF assms] ..
next
  assume "fs_read_accepted env nca idx read_size offset
          \<and> encryption_type (fs_ctx nca ! idx) = NcaEncryptionType_AesXts"
  then show "u_ncaReadFsSection env nca idx out read_size offset =
          (let sec = fs_ctx nca ! idx;
               content_offset = section_offset sec + offset;
               sector = spec_payload_sector (format_version nca) offset content_offset
           in if content_offset mod NCA_AES_XTS_SECTOR_SIZE = 0
                 \<and> read_size mod NCA_AES_XTS_SECTOR_SIZE = 0
              then
                (case ncaReadContentFile env nca read_size content_offset of
                   None \<Rightarrow> (False, out, nca)
                 | Some d \<Rightarrow>
                     let buf = memcpy_at out 0 d 0 (unat read_size);
                         res = aes128XtsNintendoCrypt env (xts_decrypt_ctx sec)
                                 (take (unat read_size) buf) read_size sector
                                 NCA_AES_XTS_SECTOR_SIZE False
                     in (fst res = read_size, memcpy_at buf 0 (snd res) 0 (unat read_size), nca))
              else
                (let block_start = ALIGN_DOWN content_offset NCA_AES_XTS_SECTOR_SIZE;
                     block_size = ALIGN_UP (content_offset + read_size) NCA_AES_XTS_SECTOR_SIZE
                                  - block_start;
                     data_start = content_offset - block_start;
                     chunk_size = (if block_size > NCA_CRYPTO_BUFFER_SIZE
                                   then NCA_CRYPTO_BUFFER_SIZE else block_size);
                     out_chunk_size = (if block_size > NCA_CRYPTO_BUFFER_SIZE
                                       then NCA_CRYPTO_BUFFER_SIZE - data_start else read_size)
                 in case ncaReadContentFile env nca chunk_size block_start of
                      None \<Rightarrow> (False, out, nca)
                    | Some d \<Rightarrow>
                        let res = aes128XtsNintendoCrypt env (xts_decrypt_ctx sec) d chunk_size
                                    sector NCA_AES_XTS_SECTOR_SIZE False;
                            buf = memcpy_at out 0 (snd res) (unat data_start) (unat out_chunk_size)
                        in if fst res \<noteq> chunk_size then (False, out, nca)
                           else if block_size > NCA_CRYPTO_BUFFER_SIZE
                           then
                             (case u_ncaReadFsSection env nca idx (drop (unat out_chunk_size) buf)
                                     (read_size - out_chunk_size) (offset + out_chunk_size) of
                                (r, rest, nca') \<Rightarrow>
                                  (r, take (unat out_chunk_size) buf @ rest, nca'))
                           else (True, buf, nca)))"
    using u_ncaReadFsSection_xts [of env nca idx read_size offset out]
    unfolding fs_xts_sector_spec by simp
qed

text \<open>
  On the example archive, whose format version is V0: slot 0 starts at sector 6, so its
  header is decrypted with sector 4 (the mask of the example cipher is the sector number),
  and a read at the start of the XTS section at offset 0xC00 uses sector
  \<open>(0xC00 - 0x400) / 0x200 = 4\<close> (the mask is the key byte 0x21 combined with 4).
\<close>

theorem xts_sector_law_witness:
  "(0 :: nat) < NCA_FS_HEADER_COUNT
   \<and> fs_read_accepted example_env example_xts_archive 0 0x200 0
   \<and> encryption_type (fs_ctx example_xts_archive ! 0) = NcaEncryptionType_AesXts
   \<and> format_version example_archive = NcaVersion_Nca0
   \<and> fs_header (fs_ctx (snd (read_fs_headers example_env None None [0] example_archive)) ! 0)
       = replicate 0x200 4
   \<and> fs_encrypted_header
         (fs_ctx (snd (encrypt_fs_headers example_env None None [0] example_archive)) ! 0)
       = replicate 0x200 4
   \<and> u_ncaReadFsSection example_env example_xts_archive 0 (replicate 0x200 0) 0x200 0
       = (True, replicate 0x200 0x25, example_xts_archive)"
  using xts_sector_law [of 0 example_env None None "[]" example_archive example_xts_archive 0
          "0x200" 0 "replicate 0x200 0"]
  by (simp add: fs_read_accepted_def example_xts_archive_def example_env_defs codec_defs
        fs_slot_populated_def fs_slot_offset_def spec_header_sector_def spec_payload_sector_def
        NcaEncryptionType_AesXts_def NcaEncryptionType_Auto_def NcaEncryptionType_AesCtrEx_def
        NcaFsSectionType_RomFs_def NcaFsSectionType_Invalid_def)

section \<open>Context initialization in phases\<close>

lemma ncaInitializeContext_phases:
  "ncaInitializeContext env out sid hfs_partition_type content_info tik =
     (case content_info of
        None \<Rightarrow> (False, out)
      | Some ci \<Rightarrow>
          if init_refused env sid hfs_partition_type ci then (False, out)
          else
            let out2 = init_context env sid ci
            in if content_size out2 < NCA_FULL_HEADER_LENGTH then (False, out2)
               else
                 (case locate_content env hfs_partition_type out2 of
                    None \<Rightarrow> (False, out2)
                  | Some out3 \<Rightarrow>
                      (case ncaReadDecryptedHeader env out3 of
                         (False, out4) \<Rightarrow> (False, out4)
                       | (True, out4) \<Rightarrow>
                           initialize_sections env (retrieve_titlekey env tik out4))))"
  unfolding ncaInitializeContext_def init_refused_def init_context_def locate_content_def
    retrieve_titlekey_def initialize_sections_def Let_def ..


section \<open>The main signature\<close>

lemma ncaReadDecryptedHeader_early:
  assumes "\<not> header_decrypts env ctx"
  shows "fst (ncaReadDecryptedHeader env ctx) = False"
    and "valid_main_signature (snd (ncaReadDecryptedHeader env ctx)) = valid_main_signature ctx"
  using assms
  by (auto simp add: ncaReadDecryptedHeader_def header_decrypts_def Let_def
        split: option.splits if_splits)

lemma ncaReadDecryptedHeader_late:
  assumes "header_decrypts env ctx"
  shows "ncaReadDecryptedHeader env ctx =
     (let ctx6 = (header_image env ctx)
                   \<lparr>valid_main_signature := ncaVerifyMainSignature env (header_image env ctx)\<rparr>;
          ka = (if \<not> rights_id_available ctx6 then ncaDecryptKeyArea env ctx6 else (True, ctx6))
      in if \<not> fst ka then (False, snd ka)
         else read_fs_headers env (header_key_ctx (the (keysGetNcaHeaderKey env)) False)
                (if format_version (snd ka) = NcaVersion_Nca0
                 then key_area_xts_ctx (snd ka) False else None)
                [0..<NCA_FS_HEADER_COUNT] (snd ka))"
proof -
  from assms obtain key where key: "keysGetNcaHeaderKey env = Some key"
    by (cases "keysGetNcaHeaderKey env") (simp_all add: header_decrypts_def)
  from assms key obtain enc where enc: "ncaReadContentFile env ctx sizeof_NcaHeader 0 = Some enc"
    by (cases "ncaReadContentFile env ctx sizeof_NcaHeader 0") (simp_all add: header_decrypts_def)
  have guard: "content_id_str ctx \<noteq> []" "\<not> content_size ctx < NCA_FULL_HEADER_LENGTH"
    using assms by (simp_all add: header_decrypts_def)
  define res where "res = aes128XtsNintendoCrypt env (header_key_ctx key False) enc sizeof_NcaHeader 0
                              NCA_AES_XTS_SECTOR_SIZE False"
  define ctx1a where "ctx1a = ctx\<lparr>encrypted_header := enc, header := snd res\<rparr>"
  define m where "m = bswap32 (magic (NcaHeader_view env (header ctx1a)))"
  define ctx2 where "ctx2 = ctx1a\<lparr>format_version :=
                                     (if m = NCA_NCA3_MAGIC then NcaVersion_Nca3
                                      else if m = NCA_NCA2_MAGIC then NcaVersion_Nca2
                                      else NcaVersion_Nca0)\<rparr>"
  define ctx3 where "ctx3 = ctx2\<lparr>key_generation := ncaGetKeyGenerationValue env ctx2\<rparr>"
  define ctx4 where "ctx4 = ctx3\<lparr>rights_id_available := ncaCheckRightsIdAvailability env ctx3\<rparr>"
  define ctx5 where "ctx5 = ctx4\<lparr>header_hash :=
                                     sha256CalculateHash env (take (unat sizeof_NcaHeader) (header ctx4))\<rparr>"
  define ctx6 where "ctx6 = ctx5\<lparr>valid_main_signature := ncaVerifyMainSignature env ctx5\<rparr>"
  define ka where "ka = (if \<not> rights_id_available ctx6 then ncaDecryptKeyArea env ctx6
                                 else (True, ctx6))"
  have unfolded: "ncaReadDecryptedHeader env ctx =
     (if fst res \<noteq> sizeof_NcaHeader
         \<or> (m \<noteq> NCA_NCA3_MAGIC \<and> m \<noteq> NCA_NCA2_MAGIC \<and> m \<noteq> NCA_NCA0_MAGIC)
         \<or> hdr_content_size (NcaHeader_view env (header ctx1a)) \<noteq> content_size ctx1a
      then (False, ctx1a)
      else if \<not> fst ka then (False, snd ka)
      else read_fs_headers env (header_key_ctx key False)
             (if format_version (snd ka) = NcaVersion_Nca0
              then key_area_xts_ctx (snd ka) False else None)
             [0..<NCA_FS_HEADER_COUNT] (snd ka))"
    using key enc guard
    unfolding ncaReadDecryptedHeader_def res_def ctx1a_def m_def ctx2_def ctx3_def ctx4_def
      ctx5_def ctx6_def ka_def
    by (simp add: Let_def)
  have img: "header_image env ctx = ctx5"
    using key enc
    unfolding header_image_def res_def ctx1a_def m_def ctx2_def ctx3_def ctx4_def ctx5_def
    by (simp add: Let_def)
  have good: "\<not> (fst res \<noteq> sizeof_NcaHeader
         \<or> (m \<noteq> NCA_NCA3_MAGIC \<and> m \<noteq> NCA_NCA2_MAGIC \<and> m \<noteq> NCA_NCA0_MAGIC)
         \<or> hdr_content_size (NcaHeader_view env (header ctx1a)) \<noteq> content_size ctx1a)"
    using assms key enc
    unfolding header_decrypts_def res_def ctx1a_def m_def
    by (auto simp add: Let_def)
  show ?thesis
    unfolding unfolded img Let_def ctx6_def [symmetric] ka_def [symmetric]
    using good key by auto
qed

lemma ncaVerifyMainSignature_header:
  assumes "header c' = header c"
  shows "ncaVerifyMainSignature env c' = ncaVerifyMainSignature env c"
  unfolding ncaVerifyMainSignature_def assms ..

lemma ncaReadDecryptedHeader_signature:
  assumes "header_decrypts env ctx"
  shows "valid_main_signature (snd (ncaReadDecryptedHeader env ctx))
         = ncaVerifyMainSignature env (snd (ncaReadDecryptedHeader env ctx))"
proof -
  define img where "img = header_image env ctx"
  define ctx6 where "ctx6 = img\<lparr>valid_main_signature := ncaVerifyMainSignature env img\<rparr>"
  define ka where "ka = (if \<not> rights_id_available ctx6 then ncaDecryptKeyArea env ctx6
                         else (True, ctx6))"
  define r where "r = read_fs_headers env (header_key_ctx (the (keysGetNcaHeaderKey env)) False)
                (if format_version (snd ka) = NcaVersion_Nca0
                 then key_area_xts_ctx (snd ka) False else None)
                [0..<NCA_FS_HEADER_COUNT] (snd ka)"
  have late: "ncaReadDecryptedHeader env ctx = (if \<not> fst ka then (False, snd ka) else r)"
    unfolding ncaReadDecryptedHeader_late [OF assms] img_def [symmetric] Let_def
      ctx6_def [symmetric] ka_def [symmetric] r_def [symmetric] ..
  have ka_frame: "snd ka = ctx6\<lparr>decrypted_key_area := decrypted_key_area (snd ka)\<rparr>"
    unfolding ka_def using ncaDecryptKeyArea_frame [of env ctx6] by simp
  have ka_facts: "header (snd ka) = header img"
                 "valid_main_signature (snd ka) = ncaVerifyMainSignature env img"
    by (subst ka_frame, simp add: ctx6_def)+
  have r_frame: "snd r = (snd ka)\<lparr>fs_ctx := fs_ctx (snd r)\<rparr>"
    using read_fs_headers_frame [of env _ _ _ "snd ka" "fst r" "snd r"] by (simp add: r_def)
  have r_facts: "header (snd r) = header img"
                "valid_main_signature (snd r) = ncaVerifyMainSignature env img"
    by (subst r_frame, simp add: ka_facts)+
  show ?thesis
    unfolding late
    using ka_facts r_facts
      ncaVerifyMainSignature_header [of "snd ka" img env]
      ncaVerifyMainSignature_header [of "snd r" img env]
    by simp
qed

subsection \<open>The verification result does not influence anything else\<close>

lemma with_signature_check_fields [simp]:
  "keysGetNcaHeaderKey (with_signature_check g f env) = keysGetNcaHeaderKey env"
  "keysDecryptNcaKeyAreaEntry (with_signature_check g f env) = keysDecryptNcaKeyAreaEntry env"
  "keysGetNcaKeyAreaEncryptionKey (with_signature_check g f env) = keysGetNcaKeyAreaEncryptionKey env"
  "keysGetNcaMainSignatureModulus (with_signature_check g f env) = g"
  "aes128XtsNintendoCrypt (with_signature_check g f env) = aes128XtsNintendoCrypt env"
  "aes128EncryptBlock (with_signature_check g f env) = aes128EncryptBlock env"
  "aes128CtrCrypt (with_signature_check g f env) = aes128CtrCrypt env"
  "aes128CtrInitializePartialCtr (with_signature_check g f env) = aes128CtrInitializePartialCtr env"
  "aes128CtrUpdatePartialCtr (with_signature_check g f env) = aes128CtrUpdatePartialCtr env"
  "rsa2048VerifySha256BasedPssSignature (with_signature_check g f env) = f"
  "sha256CalculateHash (with_signature_check g f env) = sha256CalculateHash env"
  "ncmContentStorageReadContentIdFile (with_signature_check g f env)
     = ncmContentStorageReadContentIdFile env"
  "gamecardReadStorage (with_signature_check g f env) = gamecardReadStorage env"
  "gamecardGetHashFileSystemEntryInfoByName (with_signature_check g f env)
     = gamecardGetHashFileSystemEntryInfoByName env"
  "GameCardHashFileSystemPartitionType_Count (with_signature_check g f env)
     = GameCardHashFileSystemPartitionType_Count env"
  "tikRetrieveTicketByRightsId (with_signature_check g f env) = tikRetrieveTicketByRightsId env"
  "titleConvertNcmContentSizeToU64 (with_signature_check g f env)
     = titleConvertNcmContentSizeToU64 env"
  "utilsGenerateHexStringFromData (with_signature_check g f env)
     = utilsGenerateHexStringFromData env"
  "NcaHeader_view (with_signature_check g f env) = NcaHeader_view env"
  "NcaHeader_store (with_signature_check g f env) = NcaHeader_store env"
  "NcaHeader_signature_area (with_signature_check g f env) = NcaHeader_signature_area env"
  "NcaFsHeader_view (with_signature_check g f env) = NcaFsHeader_view env"
  "NcaFsHeader_store (with_signature_check g f env) = NcaFsHeader_store env"
  "g_ncaCryptoBuffer (with_signature_check g f env) = g_ncaCryptoBuffer env"
  "alloc_ok (with_signature_check g f env) = alloc_ok env"
  by (simp_all add: with_signature_check_def)

lemma ncaReadContentFile_sig [simp]:
  "ncaReadContentFile (with_signature_check g f env) = ncaReadContentFile env"
  by (intro ext) (simp add: ncaReadContentFile_def)

lemma decrypt_key_area_entries_sig [simp]:
  "decrypt_key_area_entries (with_signature_check g f env) kaek gen src is dst
   = decrypt_key_area_entries env kaek gen src is dst"
  by (induction "is" arbitrary: dst) (simp_all add: Let_def split: option.splits)

lemma ncaDecryptKeyArea_sig [simp]:
  "ncaDecryptKeyArea (with_signature_check g f env) = ncaDecryptKeyArea env"
  by (intro ext)
     (simp add: ncaDecryptKeyArea_def ncaIsVersion0KeyAreaEncrypted_def Let_def
        cong: if_cong)

lemma read_fs_headers_sig [simp]:
  "read_fs_headers (with_signature_check g f env) a b is c = read_fs_headers env a b is c"
  by (induction "is" arbitrary: c) (simp_all add: Let_def split: option.splits)

lemma header_decrypts_sig [simp]:
  "header_decrypts (with_signature_check g f env) = header_decrypts env"
  by (intro ext) (simp add: header_decrypts_def Let_def cong: option.case_cong)

lemma header_image_sig [simp]:
  "header_image (with_signature_check g f env) = header_image env"
  by (intro ext)
     (simp add: header_image_def ncaGetKeyGenerationValue_def ncaCheckRightsIdAvailability_def
        Let_def cong: option.case_cong)

lemma fs_section_init_crypto_sig [simp]:
  "fs_section_init_crypto (with_signature_check g f env) = fs_section_init_crypto env"
  by (intro ext) (simp add: fs_section_init_crypto_def Let_def cong: if_cong)

lemma ncaInitializeFsSection_sig [simp]:
  "ncaInitializeFsSection (with_signature_check g f env) = ncaInitializeFsSection env"
  by (intro ext) (simp add: ncaInitializeFsSection_def Let_def cong: if_cong)

lemma ncaInitializeFsSections_sig [simp]:
  "ncaInitializeFsSections (with_signature_check g f env) is p = ncaInitializeFsSections env is p"
  by (induction env "is" p rule: ncaInitializeFsSections.induct) (simp_all add: Let_def)

lemma ncaDecryptKeyArea_vms:
  "ncaDecryptKeyArea env (c\<lparr>valid_main_signature := v\<rparr>)
   = apsnd (valid_main_signature_update (\<lambda>_. v)) (ncaDecryptKeyArea env c)"
  by (simp add: ncaDecryptKeyArea_def ncaIsVersion0KeyAreaEncrypted_def Let_def case_prod_unfold)

lemma ncaReadContentFile_vms [simp]:
  "ncaReadContentFile env (c\<lparr>valid_main_signature := v\<rparr>) = ncaReadContentFile env c"
  by (intro ext) (simp add: ncaReadContentFile_def)

lemma vms_fs_ctx_update:
  "c\<lparr>valid_main_signature := v, fs_ctx := x\<rparr>
   = (c\<lparr>fs_ctx := x\<rparr>)\<lparr>valid_main_signature := v\<rparr>"
  by simp

lemma read_fs_headers_vms:
  "read_fs_headers env a b is (c\<lparr>valid_main_signature := v\<rparr>)
   = apsnd (valid_main_signature_update (\<lambda>_. v)) (read_fs_headers env a b is c)"
proof (induction "is" arbitrary: c)
  case Nil
  then show ?case by simp
next
  case (Cons i "is")
  show ?case
    by (simp add: Let_def vms_fs_ctx_update Cons.IH split: option.splits)
qed

lemma fs_section_init_crypto_vms:
  "fs_section_init_crypto env (c\<lparr>valid_main_signature := v\<rparr>) = fs_section_init_crypto env c"
  by (intro ext) (simp add: fs_section_init_crypto_def key_area_xts_ctx_def Let_def cong: if_cong)

lemma ncaInitializeFsSection_vms:
  "ncaInitializeFsSection env (c\<lparr>valid_main_signature := v\<rparr>) = ncaInitializeFsSection env c"
  by (intro ext)
     (simp add: ncaInitializeFsSection_def fs_section_init_crypto_vms Let_def cong: if_cong)

lemma ncaInitializeFsSections_vms:
  "ncaInitializeFsSections env is (c\<lparr>valid_main_signature := v\<rparr>, n)
   = apfst (valid_main_signature_update (\<lambda>_. v)) (ncaInitializeFsSections env is (c, n))"
proof (induction "is" arbitrary: c n)
  case Nil
  then show ?case by simp
next
  case (Cons i "is")
  show ?case
    by (simp add: Let_def ncaInitializeFsSection_vms vms_fs_ctx_update Cons.IH)
qed

lemma header_tail_vms:
  fixes c :: NcaContext and env :: nca_env and a :: "Aes128XtsContext option" and js :: "nat list"
  defines "rest \<equiv> \<lambda>c.
     (let ka = (if \<not> rights_id_available c then ncaDecryptKeyArea env c else (True, c))
      in if \<not> fst ka then (False, snd ka)
         else read_fs_headers env a
                (if format_version (snd ka) = NcaVersion_Nca0
                 then key_area_xts_ctx (snd ka) False else None) js (snd ka))"
  shows "rest (c\<lparr>valid_main_signature := v\<rparr>)
         = apsnd (valid_main_signature_update (\<lambda>_. v)) (rest c)"
  unfolding rest_def
  by (simp add: Let_def ncaDecryptKeyArea_vms read_fs_headers_vms key_area_xts_ctx_def)

lemma ncaReadDecryptedHeader_sig:
  "fst (ncaReadDecryptedHeader (with_signature_check g f env) ctx)
     = fst (ncaReadDecryptedHeader env ctx)
   \<and> (fst (ncaReadDecryptedHeader env ctx) \<longrightarrow>
        (\<exists>w. snd (ncaReadDecryptedHeader (with_signature_check g f env) ctx)
              = (snd (ncaReadDecryptedHeader env ctx))\<lparr>valid_main_signature := w\<rparr>))"
proof (cases "header_decrypts env ctx")
  case False
  then have "\<not> header_decrypts (with_signature_check g f env) ctx"
    by simp
  then show ?thesis
    using False ncaReadDecryptedHeader_early(1) [of env ctx]
      ncaReadDecryptedHeader_early(1) [of "with_signature_check g f env" ctx]
    by simp
next
  case True
  define img where "img = header_image env ctx"
  define a where "a = header_key_ctx (the (keysGetNcaHeaderKey env)) False"
  define rest where "rest = (\<lambda>c.
     (let ka = (if \<not> rights_id_available c then ncaDecryptKeyArea env c else (True, c))
      in if \<not> fst ka then (False, snd ka)
         else read_fs_headers env a
                (if format_version (snd ka) = NcaVersion_Nca0
                 then key_area_xts_ctx (snd ka) False else None) [0..<NCA_FS_HEADER_COUNT] (snd ka)))"
  have rest_vms: "rest (c\<lparr>valid_main_signature := v\<rparr>)
                = apsnd (valid_main_signature_update (\<lambda>_. v)) (rest c)" for c v
    unfolding rest_def by (rule header_tail_vms)
  have l1: "ncaReadDecryptedHeader env ctx
            = rest (img\<lparr>valid_main_signature := ncaVerifyMainSignature env img\<rparr>)"
    unfolding ncaReadDecryptedHeader_late [OF True] rest_def img_def a_def Let_def ..
  have True': "header_decrypts (with_signature_check g f env) ctx"
    using True by simp
  have l2: "ncaReadDecryptedHeader (with_signature_check g f env) ctx
            = rest (img\<lparr>valid_main_signature :=
                       ncaVerifyMainSignature (with_signature_check g f env) img\<rparr>)"
    unfolding ncaReadDecryptedHeader_late [OF True'] rest_def img_def a_def Let_def
    by simp
  show ?thesis
    unfolding l1 l2 rest_vms
    by (auto intro: exI [of _ "ncaVerifyMainSignature (with_signature_check g f env) img"])
qed

lemma init_phases_sig [simp]:
  "init_refused (with_signature_check g f env) = init_refused env"
  "init_context (with_signature_check g f env) = init_context env"
  "locate_content (with_signature_check g f env) = locate_content env"
  "retrieve_titlekey (with_signature_check g f env) = retrieve_titlekey env"
  "initialize_sections (with_signature_check g f env) = initialize_sections env"
  by (intro ext,
      simp add: init_refused_def init_context_def locate_content_def retrieve_titlekey_def
        initialize_sections_def Let_def cong: if_cong option.case_cong)+

lemma retrieve_titlekey_vms:
  "retrieve_titlekey env tik (c\<lparr>valid_main_signature := w\<rparr>)
   = (retrieve_titlekey env tik c)\<lparr>valid_main_signature := w\<rparr>"
  by (simp add: retrieve_titlekey_def split: option.splits)

lemma initialize_sections_vms:
  "initialize_sections env (c\<lparr>valid_main_signature := w\<rparr>)
   = apsnd (valid_main_signature_update (\<lambda>_. w)) (initialize_sections env c)"
  by (simp add: initialize_sections_def ncaInitializeFsSections_vms Let_def)

lemma ncaInitializeContext_sig:
  "fst (ncaInitializeContext (with_signature_check g f env) out sid t ci tik)
     = fst (ncaInitializeContext env out sid t ci tik)
   \<and> (fst (ncaInitializeContext env out sid t ci tik) \<longrightarrow>
        forget_signature (snd (ncaInitializeContext (with_signature_check g f env) out sid t ci tik))
          = forget_signature (snd (ncaInitializeContext env out sid t ci tik)))"
proof -
  have core: "fst (case ncaReadDecryptedHeader (with_signature_check g f env) out3 of
                     (False, out4) \<Rightarrow> (False, out4)
                   | (True, out4) \<Rightarrow> initialize_sections env (retrieve_titlekey env tik out4))
              = fst (case ncaReadDecryptedHeader env out3 of
                     (False, out4) \<Rightarrow> (False, out4)
                   | (True, out4) \<Rightarrow> initialize_sections env (retrieve_titlekey env tik out4))
            \<and> (fst (case ncaReadDecryptedHeader env out3 of
                     (False, out4) \<Rightarrow> (False, out4)
                   | (True, out4) \<Rightarrow> initialize_sections env (retrieve_titlekey env tik out4))
                 \<longrightarrow>
                forget_signature (snd (case ncaReadDecryptedHeader (with_signature_check g f env) out3 of
                     (False, out4) \<Rightarrow> (False, out4)
                   | (True, out4) \<Rightarrow> initialize_sections env (retrieve_titlekey env tik out4)))
                = forget_signature (snd (case ncaReadDecryptedHeader env out3 of
                     (False, out4) \<Rightarrow> (False, out4)
                   | (True, out4) \<Rightarrow> initialize_sections env (retrieve_titlekey env tik out4))))"
    for out3
  proof -
    obtain ok c where r: "ncaReadDecryptedHeader env out3 = (ok, c)"
      by (cases "ncaReadDecryptedHeader env out3")
    obtain ok' c' where r': "ncaReadDecryptedHeader (with_signature_check g f env) out3 = (ok', c')"
      by (cases "ncaReadDecryptedHeader (with_signature_check g f env) out3")
    from ncaReadDecryptedHeader_sig [of g f env out3] r r'
    have ok: "ok' = ok" and c: "ok \<Longrightarrow> \<exists>w. c' = c\<lparr>valid_main_signature := w\<rparr>"
      by simp_all
    show ?thesis
    proof (cases ok)
      case False
      then show ?thesis
        using r r' ok by simp
    next
      case True
      then obtain w where w: "c' = c\<lparr>valid_main_signature := w\<rparr>"
        using c by blast
      show ?thesis
        using True r r' ok
        by (simp add: w retrieve_titlekey_vms initialize_sections_vms forget_signature_def)
    qed
  qed
  show ?thesis
    unfolding ncaInitializeContext_phases init_phases_sig
    using core
    by (simp add: Let_def split: option.splits)
qed

subsection \<open>Initializing the example archive\<close>

lemmas init_defs =
  ncaInitializeContext_def titleGetNcmStorageByStorageId_def NcmContentType_Meta_def
  NcmContentType_DeltaFragment_def ncaInitializeFsSection_def fs_section_encryption_type_def
  fs_section_type_def fs_section_init_crypto_def aes128CtrContextCreate_def
  NcaEncryptionType_Auto_def NcaEncryptionType_None_def NcaEncryptionType_AesXts_def
  NcaEncryptionType_AesCtr_def NcaEncryptionType_AesCtrEx_def
  NcaFsSectionType_PartitionFs_def NcaFsSectionType_RomFs_def NcaFsSectionType_PatchRomFs_def
  NcaFsSectionType_Nca0RomFs_def NcaFsSectionType_Invalid_def


lemma example_init_ok: "fst example_init"
  unfolding example_init_def
  by (simp add: init_defs example_env_defs codec_defs upt4 word_le_nat_alt word_less_nat_alt
        list_all_iff)

lemma example_init_section:
  "enabled (fs_ctx (snd example_init) ! 0)
   \<and> encryption_type (fs_ctx (snd example_init) ! 0) = NcaEncryptionType_AesCtr
   \<and> ctr_key (ctr_ctx (fs_ctx (snd example_init) ! 0)) = Some (replicate 0x10 0x2D)"
  unfolding example_init_def
  by (simp add: init_defs example_env_defs codec_defs upt4 word_le_nat_alt word_less_nat_alt
        list_all_iff)

lemma ncaVerifyMainSignature_unfold:
  "ncaVerifyMainSignature env c =
       (case keysGetNcaMainSignatureModulus env
               (main_signature_key_generation (NcaHeader_view env (header c))) of
          None \<Rightarrow> False
        | Some modulus \<Rightarrow>
            rsa2048VerifySha256BasedPssSignature env (NcaHeader_signature_area env (header c))
              (main_signature (NcaHeader_view env (header c))) modulus [0x01, 0x00, 0x01])"
  unfolding ncaVerifyMainSignature_def g_ncaHeaderMainSignaturePublicExponent_def Let_def ..

text \<open>
  Claim C7. When the header of an archive decrypts with a valid magic and the declared size,
  \<^verbatim>\<open>ncaReadDecryptedHeader\<close> leaves in \<open>valid_main_signature\<close> the result of
  \<^verbatim>\<open>ncaVerifyMainSignature\<close>, which is false when no modulus is known for
  \<open>main_signature_key_generation\<close> and otherwise the verdict of the RSA-2048-PSS
  primitive on the signature area, the main signature, that modulus and the public exponent
  01 00 01. That verdict has no other effect: whatever the modulus lookup and the RSA
  primitive answer, header reading and context initialization succeed or fail alike, and
  a successful initialization yields the same context up to that flag.
\<close>

theorem main_signature_reported:
  "(header_decrypts env ctx \<longrightarrow>
      valid_main_signature (snd (ncaReadDecryptedHeader env ctx))
        = ncaVerifyMainSignature env (snd (ncaReadDecryptedHeader env ctx)))
   \<and> ncaVerifyMainSignature env c =
       (case keysGetNcaMainSignatureModulus env
               (main_signature_key_generation (NcaHeader_view env (header c))) of
          None \<Rightarrow> False
        | Some modulus \<Rightarrow>
            rsa2048VerifySha256BasedPssSignature env (NcaHeader_signature_area env (header c))
              (main_signature (NcaHeader_view env (header c))) modulus [0x01, 0x00, 0x01])
   \<and> fst (ncaReadDecryptedHeader (with_signature_check g f env) ctx)
       = fst (ncaReadDecryptedHeader env ctx)
   \<and> fst (ncaInitializeContext (with_signature_check g f env) out sid t ci tik)
       = fst (ncaInitializeContext env out sid t ci tik)
   \<and> (fst (ncaInitializeContext env out sid t ci tik) \<longrightarrow>
        forget_signature (snd (ncaInitializeContext (with_signature_check g f env) out sid t ci tik))
          = forget_signature (snd (ncaInitializeContext env out sid t ci tik)))"
  using ncaReadDecryptedHeader_signature [of env ctx]
    ncaReadDecryptedHeader_sig [of g f env ctx]
    ncaInitializeContext_sig [of g f env out sid t ci tik]
    ncaVerifyMainSignature_unfold [of env c]
  by blast

text \<open>
  The example archive: no modulus is known, so the verification fails and the flag is
  false, and the initialization succeeds, as it does with a verification that succeeds.
\<close>

theorem main_signature_reported_witness:
  "header_decrypts example_env example_archive
   \<and> \<not> ncaVerifyMainSignature example_env example_read
   \<and> \<not> valid_main_signature example_read
   \<and> fst example_init
   \<and> fst (ncaInitializeContext
             (with_signature_check (\<lambda>gen. Some []) (\<lambda>d sg m e. True) example_env)
             NcaContext_zero NcmStorageId_SdCard 0 (Some example_content_info) None)"
proof -
  have d: "header_decrypts example_env example_archive"
    by (simp add: header_decrypts_def example_env_defs codec_defs)
  have v: "\<not> ncaVerifyMainSignature example_env example_read"
    by (simp add: ncaVerifyMainSignature_def example_env_def)
  show ?thesis
    using main_signature_reported [of example_env example_archive example_read
            "\<lambda>gen. Some []" "\<lambda>d sg m e. True" NcaContext_zero NcmStorageId_SdCard 0
            "Some example_content_info" None]
      d v example_init_ok
    by (simp add: example_read_def example_init_def)
qed

section \<open>The section loop\<close>

lemma fs_section_init_crypto_enabled [simp]:
  "enabled (fs_section_init_crypto env c fs) = enabled fs"
  by (simp add: fs_section_init_crypto_def Let_def)









lemma retrieve_titlekey_fs_ctx [simp]:
  "fs_ctx (retrieve_titlekey env tik c) = fs_ctx c"
  by (simp add: retrieve_titlekey_def split: option.splits)


lemma init_context_fs_ctx [simp]:
  "fs_ctx (init_context env sid ci) = replicate 4 NcaFsSectionContext_zero"
  by (simp add: init_context_def NcaContext_zero_def Let_def)

lemma init_context_content_size [simp]:
  "content_size (init_context env sid ci) = titleConvertNcmContentSizeToU64 env (info_size ci)"
  by (simp add: init_context_def Let_def)




end
